theory Spec2Isabelle
  imports Complex_Main "HOL-Library.Multiset"
begin

section \<open>The metadata assembler of the household data package\<close>

text \<open>
  The development embeds \<^verbatim>\<open>make_json\<close> of \<^verbatim>\<open>household/make_json.py\<close>. The function
  builds three YAML texts by instantiating templates (the resource list, the source list and
  the schema dictionary), loads them, removes duplicate sources through a Python set, merges
  everything into the fixed metadata head and writes the result as JSON to
  \<^verbatim>\<open>datapackage.json\<close>.

  Modelling decisions:
  \<^item> A pandas data frame is used only through \<^verbatim>\<open>df.columns\<close>, so a frame is the list of its
    column header tuples, each a list of strings.
  \<^item> A Python dict that is iterated (\<^verbatim>\<open>data_sets\<close>, \<^verbatim>\<open>info_cols\<close>) is an association list in
    iteration order; the record \<^verbatim>\<open>h\<close>, which is only indexed, is a map.
  \<^item> A YAML text is represented by the sequence of values its template instances load to; the
    empty text loads to \<^verbatim>\<open>None\<close>. The code pastes names into the text (resolution keys,
    households, feeds, the names of the info columns, version, changes) and loads the text
    again, so a pasted name comes back as the string it was only if the loader reads it as
    one. The template values below are the ones the text loads to when it does; the
    predicate \<open>plain_input\<close> gives a sufficient condition on the input, and each statement
    that says what a pasted name has become in the document assumes it. \<^verbatim>\<open>yaml.load\<close> is the
    loader of PyYAML 5 and older, called without a \<^verbatim>\<open>Loader\<close>.
  \<^item> Every raise is a value of \<open>py_error\<close>; a result is \<open>py_error + 'a\<close>.
  \<^item> The iteration order of a Python set of tuples of strings is not determined by the
    program (string hashes are salted per process), so removing duplicates is a relation and
    \<open>make_json\<close> is an inductive predicate on outcomes.
  \<^item> The written file holds \<^verbatim>\<open>json.dumps\<close> of the metadata value; the file store maps the path to
    that value under the constructor \<open>Json_dumps\<close>. Failures of \<^verbatim>\<open>open\<close> and \<^verbatim>\<open>write\<close> belong to the
    environment and are not modelled.
\<close>

subsection \<open>Values, errors, dictionaries\<close>

datatype pyval =
    PyNone
  | PyBool bool
  | PyStr string
  | PyFloat real
  | PyList "pyval list"
  | PyDict "(string \<times> pyval) list"

datatype py_error =
    KeyError string
  | IndexError
  | TypeError string

datatype file_content = Json_dumps pyval

record outcome =
  returned :: pyval
  files :: "string \<rightharpoonup> file_content"

type_synonym column = "string list"
type_synonym data_frame = "column list"
type_synonym source_items = "(string \<times> string) list"

text \<open>\<^verbatim>\<open>d[k]\<close>: the value, or \<^verbatim>\<open>KeyError(k)\<close>.\<close>

definition getitem :: "(string \<rightharpoonup> 'v) \<Rightarrow> string \<Rightarrow> py_error + 'v" where
  "getitem d k = (case d k of None \<Rightarrow> Inl (KeyError k) | Some v \<Rightarrow> Inr v)"

text \<open>\<^verbatim>\<open>d.values()\<close> of a dict given by its items.\<close>

definition dict_values :: "(string \<times> 'v) list \<Rightarrow> 'v list" where
  "dict_values d = map snd d"

subsection \<open>The lookup tables\<close>

definition web_template :: "(string \<times> string) list" where
  "web_template = [(''CoSSMic'', ''http://cossmic.eu/'')]"

definition region_template :: "(string \<times> string) list" where
  "region_template = [(''DE_konstanz'', ''Germany, Konstanz'')]"

definition type_template :: "(string \<times> string) list" where
  "type_template =
     [(''residential_4-person_suburb_building'',
       ''Residential building, located in the suburban area in a four-person household'')]"

definition descriptions_template :: "(string \<times> string) list" where
  "descriptions_template =
     [(''grid_import'', ''Energy imported from the public grid in kWh''),
      (''grid_export'', ''Energy exported to the public grid in kWh''),
      (''consumption'', ''Total household energy consumption in kWh''),
      (''pv'', ''Total Photovoltaic energy generation in kWh''),
      (''ev'', ''Electric Vehicle charging energy in kWh''),
      (''storage_charge'', ''Battery charging energy in kWh''),
      (''storage_discharge'', ''Battery discharged energy in kWh''),
      (''heat_pump'', ''Heat pump energy consumption in kWh''),
      (''circulation_pump'',
       ''Circulation pump energy consumption, circulating the heated water of e.g. boilers in kWh''),
      (''dishwasher'', ''Dishwasher energy consumption in kWh''),
      (''washing_machine'', ''Washing machine energy consumption in kWh''),
      (''refrigerator'', ''Refridgerator energy consumption in kWh''),
      (''freezer'', ''Freezer energy consumption in kWh''),
      (''default'', ''Energy in kWh'')]"

text \<open>\<^verbatim>\<open>yaml.load\<close> of a lookup template: the dict of its lines.\<close>

definition websites :: "string \<rightharpoonup> string" where
  "websites = map_of web_template"

definition regions :: "string \<rightharpoonup> string" where
  "regions = map_of region_template"

definition types :: "string \<rightharpoonup> string" where
  "types = map_of type_template"

definition descriptions :: "string \<rightharpoonup> string" where
  "descriptions = map_of descriptions_template"

subsection \<open>The templates\<close>

text \<open>The literal that \<^verbatim>\<open>resource_list\<close> starts from.\<close>

definition resource_xlsx :: pyval where
  "resource_xlsx =
     PyDict [(''mediatype'',
              PyStr ''application/vnd.openxmlformats-officedocument.spreadsheetml.sheet''),
             (''format'', PyStr ''xlsx''),
             (''path'', PyStr ''time_series.xlsx'')]"

text \<open>
  \<^verbatim>\<open>resource_template.format(res_key=res_key)\<close>, loaded, for a key that loads as a string
  (\<open>plain_scalar\<close>). A key such as \<^verbatim>\<open>60\<close> comes back from the loader as an integer under
  \<^verbatim>\<open>schema\<close>; the paths are strings for every such key.
\<close>

definition resource_template_format :: "string \<Rightarrow> pyval" where
  "resource_template_format res_key =
     PyDict [(''path'', PyStr (''household_data_'' @ res_key @ ''_singleindex.csv'')),
             (''format'', PyStr ''csv''),
             (''mediatype'', PyStr ''text/csv''),
             (''encoding'', PyStr ''UTF8''),
             (''schema'', PyStr res_key),
             (''dialect'',
              PyDict [(''csvddfVersion'', PyFloat 1.0),
                      (''delimiter'', PyStr '',''),
                      (''lineTerminator'', PyStr [CHR 0x0A]),
                      (''header'', PyBool True)]),
             (''alternative_formats'',
              PyList [PyDict [(''path'', PyStr (''household_data_'' @ res_key @ ''_singleindex.csv'')),
                              (''stacking'', PyStr ''Singleindex''),
                              (''format'', PyStr ''csv'')],
                      PyDict [(''path'', PyStr ''household_data.xlsx''),
                              (''stacking'', PyStr ''Multiindex''),
                              (''format'', PyStr ''xlsx'')],
                      PyDict [(''path'', PyStr (''household_data_'' @ res_key @ ''_multiindex.csv'')),
                              (''stacking'', PyStr ''Multiindex''),
                              (''format'', PyStr ''csv'')],
                      PyDict [(''path'', PyStr (''household_data_'' @ res_key @ ''_stacked.csv'')),
                              (''stacking'', PyStr ''Stacked''),
                              (''format'', PyStr ''csv'')]])]"

text \<open>The three fields that \<^verbatim>\<open>schemas_template\<close> spells out.\<close>

definition utc_field :: "string \<Rightarrow> pyval" where
  "utc_field utc =
     PyDict [(''name'', PyStr utc),
             (''description'', PyStr ''Start of timeperiod in Coordinated Universal Time''),
             (''type'', PyStr ''datetime''),
             (''format'', PyStr ''fmt:%Y-%m-%dT%H%M%SZ''),
             (''opsd-contentfilter'', PyBool True)]"

definition cet_field :: "string \<Rightarrow> pyval" where
  "cet_field cet =
     PyDict [(''name'', PyStr cet),
             (''description'', PyStr ''Start of timeperiod in Central European (Summer-) Time''),
             (''type'', PyStr ''datetime''),
             (''format'', PyStr ''fmt:%Y-%m-%dT%H%M%S%z'')]"

definition marker_field :: "string \<Rightarrow> pyval" where
  "marker_field marker =
     PyDict [(''name'', PyStr marker),
             (''description'',
              PyStr (''marker to indicate which columns are missing data in source data '' @
                     ''and has been interpolated (e.g. DE_transnetbw_solar_generation;)'')),
             (''type'', PyStr ''string'')]"

text \<open>
  \<^verbatim>\<open>schemas_template\<close> with its slots filled, followed by the text of \<open>field_list\<close>, loaded:
  one entry of the schema mapping. The field items continue the block sequence under
  \<^verbatim>\<open>fields:\<close>, at the same indentation.
\<close>

definition schemas_template :: "string \<Rightarrow> string \<Rightarrow> string \<Rightarrow> string \<Rightarrow> pyval list \<Rightarrow> string \<times> pyval" where
  "schemas_template res_key utc cet marker field_list =
     (res_key,
      PyDict [(''primaryKey'', PyStr utc),
              (''missingValue'', PyStr []),
              (''fields'',
               PyList ([utc_field utc, cet_field cet, marker_field marker] @ field_list))])"

text \<open>
  \<^verbatim>\<open>schemas_template.format(res_key=res_key, **info_cols) + field_list\<close>. A key \<^verbatim>\<open>res_key\<close> in
  \<open>info_cols\<close> is passed twice and raises a \<^verbatim>\<open>TypeError\<close> at the call; a missing \<^verbatim>\<open>utc\<close>,
  \<^verbatim>\<open>cet\<close> or \<^verbatim>\<open>marker\<close> raises a \<^verbatim>\<open>KeyError\<close>, in the order the template names them.
\<close>

definition schemas_template_format ::
  "string \<Rightarrow> (string \<times> string) list \<Rightarrow> pyval list \<Rightarrow> py_error + (string \<times> pyval)" where
  "schemas_template_format res_key info_cols field_list =
     (if ''res_key'' \<in> set (map fst info_cols)
      then Inl (TypeError ''format() got multiple values for keyword argument res_key'')
      else
        case getitem (map_of info_cols) ''utc'' of Inl e \<Rightarrow> Inl e | Inr utc \<Rightarrow>
        case getitem (map_of info_cols) ''cet'' of Inl e \<Rightarrow> Inl e | Inr cet \<Rightarrow>
        case getitem (map_of info_cols) ''marker'' of Inl e \<Rightarrow> Inl e | Inr marker \<Rightarrow>
          Inr (schemas_template res_key utc cet marker field_list))"

text \<open>
  \<^verbatim>\<open>field_template\<close> with its slots filled, loaded, for a household and a feed that load as
  strings (\<open>plain_scalar\<close>). An empty feed comes back from the loader as \<^verbatim>\<open>None\<close>, and a name
  such as \<^verbatim>\<open>true\<close> or \<^verbatim>\<open>123\<close> as a bool or an integer.
\<close>

definition field_template ::
  "string \<Rightarrow> string \<Rightarrow> string \<Rightarrow> string \<Rightarrow> string \<Rightarrow> string \<Rightarrow> string \<Rightarrow> pyval" where
  "field_template household feed description project web ty region =
     PyDict [(''name'', PyStr (household @ ''_'' @ feed)),
             (''description'', PyStr description),
             (''type'', PyStr ''number (float)''),
             (''source'',
              PyDict [(''project'', PyStr project),
                      (''web'', PyStr web),
                      (''type'', PyStr ty)]),
             (''opsd-properties'',
              PyDict [(''Region'', PyStr region),
                      (''Household'', PyStr household),
                      (''Feed'', PyStr feed)])]"

text \<open>\<^verbatim>\<open>field_template.format(**h)\<close>: the slots are read from \<open>h\<close> in the template's order.\<close>

definition field_template_format :: "(string \<rightharpoonup> string) \<Rightarrow> py_error + pyval" where
  "field_template_format h =
     (case getitem h ''household'' of Inl e \<Rightarrow> Inl e | Inr household \<Rightarrow>
      case getitem h ''feed'' of Inl e \<Rightarrow> Inl e | Inr feed \<Rightarrow>
      case getitem h ''description'' of Inl e \<Rightarrow> Inl e | Inr description \<Rightarrow>
      case getitem h ''project'' of Inl e \<Rightarrow> Inl e | Inr project \<Rightarrow>
      case getitem h ''web'' of Inl e \<Rightarrow> Inl e | Inr web \<Rightarrow>
      case getitem h ''type'' of Inl e \<Rightarrow> Inl e | Inr ty \<Rightarrow>
      case getitem h ''region'' of Inl e \<Rightarrow> Inl e | Inr region \<Rightarrow>
        Inr (field_template household feed description project web ty region))"

text \<open>\<^verbatim>\<open>source_template\<close> with its slots filled, loaded: the items of one source entry.\<close>

definition source_template :: "string \<Rightarrow> string \<Rightarrow> string \<Rightarrow> source_items" where
  "source_template project web ty = [(''project'', project), (''web'', web), (''type'', ty)]"

definition source_template_format :: "(string \<rightharpoonup> string) \<Rightarrow> py_error + source_items" where
  "source_template_format h =
     (case getitem h ''project'' of Inl e \<Rightarrow> Inl e | Inr project \<Rightarrow>
      case getitem h ''web'' of Inl e \<Rightarrow> Inl e | Inr web \<Rightarrow>
      case getitem h ''type'' of Inl e \<Rightarrow> Inl e | Inr ty \<Rightarrow>
        Inr (source_template project web ty))"

text \<open>
  \<^verbatim>\<open>yaml.load(metadata_head.format(version=version, changes=changes))\<close>, as items, for a
  version and a description of the changes that can stand between single quotes
  (\<open>quoted_scalar\<close>). With an apostrophe in one of them the loader raises a parser error, and it
  folds a line break; neither is part of this development.
\<close>

definition metadata_head_format :: "string \<Rightarrow> string \<Rightarrow> (string \<times> pyval) list" where
  "metadata_head_format version changes =
     [(''name'', PyStr ''opsd_household_data''),
      (''title'', PyStr ''Household Data''),
      (''description'',
       PyStr ''Detailed household load and solar in minutely to hourly resolution''),
      (''long_description'',
       PyStr (''This data package contains different kinds of timeseries '' @
              ''data relevant for power system modelling, namely electricity consumption '' @
              ''(load) as well as solar power generation for several small businesses and '' @
              ''private households, in a resolution up to single device consumptions. '' @
              ''The timeseries become available at different points in time depending on the '' @
              ''sources. The data has been downloaded from the sources, resampled and merged in '' @
              ''large CSV files with minutely to hourly resolution. Most measurements were done '' @
              ''initially in 3 minute intervals, to later on minutely intervals. To improve the '' @
              ''datas classifyability, additional 15- and 60-minute interval files are provided. '' @
              ''All data processing is conducted in python and pandas and has been documented in '' @
              ''the Jupyter notebooks linked below.'')),
      (''documentation'',
       PyStr ''https://github.com/isc-konstanz/household_data/blob/master/main.ipynb''),
      (''version'', PyStr version),
      (''last_changes'', PyStr changes),
      (''keywords'',
       PyList [PyStr ''Open Power System Data'', PyStr ''CoSSMic'', PyStr ''household data'',
               PyStr ''time series'', PyStr ''power systems'', PyStr ''in-feed'',
               PyStr ''renewables'', PyStr ''solar'', PyStr ''power consumption'']),
      (''geographical-scope'', PyStr ''Southern Germany''),
      (''contributors'',
       PyList [PyDict [(''web'', PyStr ''http://isc-konstanz.de/''),
                       (''name'', PyStr ''Adrian Minde''),
                       (''email'', PyStr ''adrian.minde@isc-konstanz.de'')]])]"

subsection \<open>One column\<close>

text \<open>Line 216: \<^verbatim>\<open>h = {k: v for k, v in zip(headers, col)}\<close>; a later pair overwrites.\<close>

definition header_record :: "string list \<Rightarrow> column \<Rightarrow> (string \<rightharpoonup> string)" where
  "header_record headers col = fold (\<lambda>(k, v) h. h(k \<mapsto> v)) (zip headers col) Map.empty"

text \<open>
  Lines 218 to 231: the four lookups. Only the feed lookup sits in a \<^verbatim>\<open>try\<close>; its handler
  catches the \<^verbatim>\<open>KeyError\<close> of \<^verbatim>\<open>h['feed']\<close> as well as that of the table.
\<close>

definition resolve :: "(string \<rightharpoonup> string) \<Rightarrow> py_error + (string \<rightharpoonup> string)" where
  "resolve h =
     (case getitem h ''project'' of Inl e \<Rightarrow> Inl e | Inr project \<Rightarrow>
      case getitem websites project of Inl e \<Rightarrow> Inl e | Inr web \<Rightarrow>
      let h1 = h(''web'' \<mapsto> web) in
      case getitem h1 ''region'' of Inl e \<Rightarrow> Inl e | Inr region \<Rightarrow>
      case getitem regions region of Inl e \<Rightarrow> Inl e | Inr region_name \<Rightarrow>
      let h2 = h1(''region'' \<mapsto> region_name) in
      case getitem h2 ''type'' of Inl e \<Rightarrow> Inl e | Inr ty \<Rightarrow>
      case getitem types ty of Inl e \<Rightarrow> Inl e | Inr type_name \<Rightarrow>
      let h3 = h2(''type'' \<mapsto> type_name) in
      case (case getitem h3 ''feed'' of Inl e \<Rightarrow> Inl e
            | Inr feed \<Rightarrow> getitem descriptions feed) of
        Inr description \<Rightarrow> Inr (h3(''description'' \<mapsto> description))
      | Inl (KeyError k) \<Rightarrow>
          (case getitem descriptions ''default'' of Inl e \<Rightarrow> Inl e
           | Inr description \<Rightarrow> Inr (h3(''description'' \<mapsto> description)))
      | Inl e \<Rightarrow> Inl e)"

text \<open>Lines 216 to 234 for a column that is not skipped: its field and its source entry.\<close>

definition col_entry :: "string list \<Rightarrow> column \<Rightarrow> py_error + (pyval \<times> source_items)" where
  "col_entry headers col =
     (case resolve (header_record headers col) of Inl e \<Rightarrow> Inl e | Inr h \<Rightarrow>
      case field_template_format h of Inl e \<Rightarrow> Inl e | Inr field \<Rightarrow>
      case source_template_format h of Inl e \<Rightarrow> Inl e | Inr source \<Rightarrow>
        Inr (field, source))"

text \<open>Line 214: \<^verbatim>\<open>col[0] in info_cols.values()\<close>, for a column with a first level.\<close>

definition is_info_col :: "(string \<times> string) list \<Rightarrow> column \<Rightarrow> bool" where
  "is_info_col info_cols col = (hd col \<in> set (dict_values info_cols))"

text \<open>
  The body of the inner loop, on the accumulators \<open>(field_list, source_list)\<close>.
  \<^verbatim>\<open>col[0]\<close> of an empty tuple raises \<^verbatim>\<open>IndexError\<close>.
\<close>

definition col_step ::
  "(string \<times> string) list \<Rightarrow> string list \<Rightarrow> column \<Rightarrow> pyval list \<times> source_items list
     \<Rightarrow> py_error + (pyval list \<times> source_items list)" where
  "col_step info_cols headers col acc =
     (case acc of (field_list, source_list) \<Rightarrow>
        if col = [] then Inl IndexError
        else if is_info_col info_cols col then Inr (field_list, source_list)
        else case col_entry headers col of Inl e \<Rightarrow> Inl e
             | Inr (field, source) \<Rightarrow> Inr (field_list @ [field], source_list @ [source]))"

fun columns_loop ::
  "(string \<times> string) list \<Rightarrow> string list \<Rightarrow> data_frame \<Rightarrow> pyval list \<times> source_items list
     \<Rightarrow> py_error + (pyval list \<times> source_items list)" where
  "columns_loop info_cols headers [] acc = Inr acc"
| "columns_loop info_cols headers (col # cols) acc =
     (case col_step info_cols headers col acc of Inl e \<Rightarrow> Inl e
      | Inr acc' \<Rightarrow> columns_loop info_cols headers cols acc')"

subsection \<open>One resolution key, and all of them\<close>

text \<open>
  The body of the outer loop (lines 205 to 237), on the accumulators
  \<open>(resource_list, source_list, schemas_dict)\<close>.
\<close>

definition res_step ::
  "(string \<times> string) list \<Rightarrow> string list \<Rightarrow> string \<times> data_frame
     \<Rightarrow> pyval list \<times> source_items list \<times> (string \<times> pyval) list
     \<Rightarrow> py_error + (pyval list \<times> source_items list \<times> (string \<times> pyval) list)" where
  "res_step info_cols headers item acc =
     (case item of (res_key, df) \<Rightarrow>
      case acc of (resource_list, source_list, schemas_dict) \<Rightarrow>
        let resource_list' = resource_list @ [resource_template_format res_key] in
        case columns_loop info_cols headers df ([], source_list) of Inl e \<Rightarrow> Inl e
        | Inr (field_list, source_list') \<Rightarrow>
          case schemas_template_format res_key info_cols field_list of Inl e \<Rightarrow> Inl e
          | Inr schema \<Rightarrow> Inr (resource_list', source_list', schemas_dict @ [schema]))"

fun data_sets_loop ::
  "(string \<times> string) list \<Rightarrow> string list \<Rightarrow> (string \<times> data_frame) list
     \<Rightarrow> pyval list \<times> source_items list \<times> (string \<times> pyval) list
     \<Rightarrow> py_error + (pyval list \<times> source_items list \<times> (string \<times> pyval) list)" where
  "data_sets_loop info_cols headers [] acc = Inr acc"
| "data_sets_loop info_cols headers (item # items) acc =
     (case res_step info_cols headers item acc of Inl e \<Rightarrow> Inl e
      | Inr acc' \<Rightarrow> data_sets_loop info_cols headers items acc')"

subsection \<open>Loading, removing duplicates, writing\<close>

text \<open>
  \<^verbatim>\<open>yaml.load\<close> of a text of sequence items, and of mapping entries; the empty text is
  \<^verbatim>\<open>None\<close>. The mapping has one entry for each key of the text when the keys load as
  pairwise different strings, as they do for the keys of a dict that are \<open>plain_scalar\<close>; keys
  such as \<^verbatim>\<open>1\<close> and \<^verbatim>\<open>01\<close> would load as the same integer and share one entry.
\<close>

definition yaml_load_sequence :: "pyval list \<Rightarrow> pyval" where
  "yaml_load_sequence entries = (if entries = [] then PyNone else PyList entries)"

definition yaml_load_mapping :: "(string \<times> pyval) list \<Rightarrow> pyval" where
  "yaml_load_mapping entries = (if entries = [] then PyNone else PyDict entries)"

definition source_dict :: "source_items \<Rightarrow> pyval" where
  "source_dict entry = PyDict (map (\<lambda>(k, v). (k, PyStr v)) entry)"

text \<open>
  Lines 242 to 244: the tuples of items of the loaded entries go through a \<^verbatim>\<open>set\<close>, and the
  comprehension lists the set in its iteration order: each element once, in some order.
\<close>

definition set_iteration :: "'a list \<Rightarrow> 'a list \<Rightarrow> bool" where
  "set_iteration xs ys = (distinct ys \<and> set ys = set xs)"

text \<open>Lines 247 to 251: the metadata value.\<close>

definition metadata ::
  "string \<Rightarrow> string \<Rightarrow> source_items list \<Rightarrow> pyval list \<Rightarrow> (string \<times> pyval) list \<Rightarrow> pyval" where
  "metadata version changes sources resource_list schemas_dict =
     PyDict (metadata_head_format version changes
             @ [(''sources'', PyList (map source_dict sources)),
                (''resources'', yaml_load_sequence resource_list),
                (''schemas'', yaml_load_mapping schemas_dict)])"

text \<open>
  The whole function, from the files before the call to an error or to the value returned
  together with the files after the call. Iterating over \<^verbatim>\<open>yaml.load('')\<close>, which is \<^verbatim>\<open>None\<close>,
  raises a \<^verbatim>\<open>TypeError\<close>. The function ends in a bare \<^verbatim>\<open>return\<close>.
\<close>

inductive make_json ::
  "(string \<times> data_frame) list \<Rightarrow> (string \<times> string) list \<Rightarrow> string \<Rightarrow> string \<Rightarrow> string list
     \<Rightarrow> (string \<rightharpoonup> file_content) \<Rightarrow> py_error + outcome \<Rightarrow> bool" where
  loop_raises:
    "data_sets_loop info_cols headers data_sets ([resource_xlsx], [], []) = Inl e
     \<Longrightarrow> make_json data_sets info_cols version changes headers fs (Inl e)"
| load_raises:
    "data_sets_loop info_cols headers data_sets ([resource_xlsx], [], [])
       = Inr (resource_list, [], schemas_dict)
     \<Longrightarrow> make_json data_sets info_cols version changes headers fs
           (Inl (TypeError ''NoneType object is not iterable''))"
| written:
    "data_sets_loop info_cols headers data_sets ([resource_xlsx], [], [])
       = Inr (resource_list, source_list, schemas_dict)
     \<Longrightarrow> source_list \<noteq> []
     \<Longrightarrow> set_iteration source_list sources
     \<Longrightarrow> make_json data_sets info_cols version changes headers fs
           (Inr \<lparr>returned = PyNone,
                files = fs(''datapackage.json'' \<mapsto>
                  Json_dumps (metadata version changes sources resource_list schemas_dict))\<rparr>)"

subsection \<open>Reading the written document\<close>

text \<open>\<^verbatim>\<open>d.get(k)\<close> on a value; \<^verbatim>\<open>None\<close> also when the value is no dict.\<close>

definition dict_get :: "pyval \<Rightarrow> string \<Rightarrow> pyval option" where
  "dict_get d k = (case d of PyDict entries \<Rightarrow> map_of entries k | _ \<Rightarrow> None)"

text \<open>The value whose JSON text a file store holds at \<^verbatim>\<open>datapackage.json\<close>.\<close>

definition datapackage :: "(string \<rightharpoonup> file_content) \<Rightarrow> pyval option" where
  "datapackage fs = (case fs ''datapackage.json'' of None \<Rightarrow> None | Some (Json_dumps d) \<Rightarrow> Some d)"


subsection \<open>A synthetic data set\<close>

text \<open>
  One resolution, \<^verbatim>\<open>15min\<close>, with a timestamp column and one photovoltaic feed of the household
  \<^verbatim>\<open>DE_KN_residential1\<close>.
\<close>

definition example_headers :: "string list" where
  "example_headers = [''household'', ''feed'', ''project'', ''region'', ''type'']"

definition example_info_cols :: "(string \<times> string) list" where
  "example_info_cols =
     [(''utc'', ''utc_timestamp''), (''cet'', ''cet_cest_timestamp''), (''marker'', ''interpolated'')]"

definition example_pv_col :: column where
  "example_pv_col =
     [''DE_KN_residential1'', ''pv'', ''CoSSMic'', ''DE_konstanz'',
      ''residential_4-person_suburb_building'']"

definition example_frame :: data_frame where
  "example_frame = [[''utc_timestamp'', [], [], [], []], example_pv_col]"

definition example_data_sets :: "(string \<times> data_frame) list" where
  "example_data_sets = [(''15min'', example_frame)]"

subsection \<open>Auxiliary notions for the statements\<close>

text \<open>The columns of a frame that the inner loop does not skip, in order.\<close>

definition data_cols :: "(string \<times> string) list \<Rightarrow> data_frame \<Rightarrow> data_frame" where
  "data_cols info_cols df = filter (\<lambda>col. \<not> is_info_col info_cols col) df"

text \<open>The only source entry the lookup tables can produce.\<close>

definition cossmic_source :: source_items where
  "cossmic_source =
     source_template ''CoSSMic'' ''http://cossmic.eu/''
       ''Residential building, located in the suburban area in a four-person household''"

text \<open>Two more columns, one with an unlisted feed and one with an unknown project.\<close>

definition example_oven_col :: column where
  "example_oven_col =
     [''DE_KN_residential1'', ''oven'', ''CoSSMic'', ''DE_konstanz'',
      ''residential_4-person_suburb_building'']"

definition example_project_col :: column where
  "example_project_col =
     [''DE_KN_residential1'', ''pv'', ''Other'', ''DE_konstanz'',
      ''residential_4-person_suburb_building'']"

definition example_other_data_sets :: "(string \<times> data_frame) list" where
  "example_other_data_sets =
     [(''15min'', [[''utc_timestamp'', [], [], [], []], example_project_col])]"

text \<open>A collection whose only column is the timestamp.\<close>

definition example_info_data_sets :: "(string \<times> data_frame) list" where
  "example_info_data_sets = [(''15min'', [[''utc_timestamp'', [], [], [], []]])]"

text \<open>What the run on the synthetic data set writes.\<close>

definition example_document :: pyval where
  "example_document =
     metadata ''2020-04-15'' ''Initial release'' [cossmic_source]
       [resource_xlsx, resource_template_format ''15min'']
       [schemas_template ''15min'' ''utc_timestamp'' ''cet_cest_timestamp'' ''interpolated''
          [field_template ''DE_KN_residential1'' ''pv''
             ''Total Photovoltaic energy generation in kWh'' ''CoSSMic'' ''http://cossmic.eu/''
             ''Residential building, located in the suburban area in a four-person household''
             ''Germany, Konstanz'']]"

definition example_outcome :: outcome where
  "example_outcome =
     \<lparr>returned = PyNone,
      files = Map.empty(''datapackage.json'' \<mapsto> Json_dumps example_document)\<rparr>"


subsection \<open>Names that load as themselves\<close>

text \<open>
  A name of letters, digits and underscores that does not start with a digit, or that has a
  letter no number is written with, and that is none of the words the loader reads as a
  boolean or as \<^verbatim>\<open>None\<close>, is read as a string wherever the templates paste it: no integer,
  float or timestamp of YAML 1.1 has this form.
\<close>

definition name_chars :: string where
  "name_chars = ''abcdefghijklmnopqrstuvwxyzABCDEFGHIJKLMNOPQRSTUVWXYZ0123456789_''"

definition digit_chars :: string where
  "digit_chars = ''0123456789''"

definition word_letters :: string where
  "word_letters = ''ghijklmnopqrstuvwyzGHIJKLMNOPQRSTUVWXYZ''"

definition yaml_words :: "string list" where
  "yaml_words =
     [''yes'', ''Yes'', ''YES'', ''no'', ''No'', ''NO'', ''true'', ''True'', ''TRUE'',
      ''false'', ''False'', ''FALSE'', ''on'', ''On'', ''ON'', ''off'', ''Off'', ''OFF'',
      ''null'', ''Null'', ''NULL'', ''y'', ''Y'', ''n'', ''N'']"

definition plain_scalar :: "string \<Rightarrow> bool" where
  "plain_scalar s =
     (s \<noteq> [] \<and> list_all (\<lambda>c. c \<in> set name_chars) s \<and>
      (hd s \<notin> set digit_chars \<or> list_ex (\<lambda>c. c \<in> set word_letters) s) \<and>
      s \<notin> set yaml_words)"

text \<open>Text that stands for itself between the single quotes of the metadata head.\<close>

definition quoted_scalar :: "string \<Rightarrow> bool" where
  "quoted_scalar s = list_all (\<lambda>c. c \<in> set name_chars \<or> c \<in> set '' .,:;-+()/'') s"



subsection \<open>A second synthetic collection\<close>

text \<open>
  Two resolutions. The table of the first has three data columns, from two households, with
  the marker column between them; the table of the second is the one above.
\<close>

definition example_load_col :: column where
  "example_load_col =
     [''DE_KN_residential2'', ''consumption'', ''CoSSMic'', ''DE_konstanz'',
      ''residential_4-person_suburb_building'']"

definition example_wide_frame :: data_frame where
  "example_wide_frame =
     [[''utc_timestamp'', [], [], [], []], example_pv_col,
      [''interpolated'', [], [], [], []], example_load_col, example_oven_col]"

definition example_two_data_sets :: "(string \<times> data_frame) list" where
  "example_two_data_sets = [(''15min'', example_wide_frame), (''60min'', example_frame)]"

definition example_pv_field :: pyval where
  "example_pv_field =
     field_template ''DE_KN_residential1'' ''pv''
       ''Total Photovoltaic energy generation in kWh'' ''CoSSMic'' ''http://cossmic.eu/''
       ''Residential building, located in the suburban area in a four-person household''
       ''Germany, Konstanz''"

definition example_load_field :: pyval where
  "example_load_field =
     field_template ''DE_KN_residential2'' ''consumption''
       ''Total household energy consumption in kWh'' ''CoSSMic'' ''http://cossmic.eu/''
       ''Residential building, located in the suburban area in a four-person household''
       ''Germany, Konstanz''"

definition example_oven_field :: pyval where
  "example_oven_field =
     field_template ''DE_KN_residential1'' ''oven'' ''Energy in kWh'' ''CoSSMic''
       ''http://cossmic.eu/''
       ''Residential building, located in the suburban area in a four-person household''
       ''Germany, Konstanz''"

definition example_two_document :: pyval where
  "example_two_document =
     metadata ''2020-04-15'' ''Initial release'' [cossmic_source]
       [resource_xlsx, resource_template_format ''15min'', resource_template_format ''60min'']
       [schemas_template ''15min'' ''utc_timestamp'' ''cet_cest_timestamp'' ''interpolated''
          [example_pv_field, example_load_field, example_oven_field],
        schemas_template ''60min'' ''utc_timestamp'' ''cet_cest_timestamp'' ''interpolated''
          [example_pv_field]]"

definition example_two_outcome :: outcome where
  "example_two_outcome =
     \<lparr>returned = PyNone,
      files = Map.empty(''datapackage.json'' \<mapsto> Json_dumps example_two_document)\<rparr>"

section \<open>Properties\<close>

subsection \<open>Dictionaries and lookups\<close>

lemma fold_upd_map_of:
  "fold (\<lambda>(k, v) h. h(k \<mapsto> v)) xs m = m ++ map_of (rev xs)"
  by (induction xs arbitrary: m) (auto simp: map_add_def fun_eq_iff split: option.splits)

lemma header_record_map_of: "header_record headers col = map_of (rev (zip headers col))"
  by (simp add: header_record_def fold_upd_map_of)

lemma map_of_rev_distinct:
  assumes "distinct (map fst xs)"
  shows "map_of (rev xs) = map_of xs"
proof (rule ext)
  fix k
  have d: "distinct (map fst (rev xs))"
    using assms by (metis distinct_rev rev_map)
  show "map_of (rev xs) k = map_of xs k"
  proof (cases "map_of xs k")
    case None
    then have "k \<notin> fst ` set xs" by (simp add: map_of_eq_None_iff)
    then have "map_of (rev xs) k = None" by (simp add: map_of_eq_None_iff)
    with None show ?thesis by simp
  next
    case (Some v)
    then have "(k, v) \<in> set (rev xs)" by (auto dest: map_of_SomeD)
    then have "map_of (rev xs) k = Some v" using d by (rule map_of_is_SomeI [rotated])
    with Some show ?thesis by simp
  qed
qed

lemma zip_take_length: "zip xs (take (length xs) ys) = zip xs ys"
proof (induction xs arbitrary: ys)
  case Nil
  then show ?case by simp
next
  case (Cons x xs)
  then show ?case by (cases ys) simp_all
qed

lemma header_record_nth:
  assumes "distinct headers" "length headers \<le> length col" "i < length headers"
  shows "header_record headers col (headers ! i) = Some (col ! i)"
proof -
  let ?c = "take (length headers) col"
  have len: "length headers = length ?c" using assms(2) by simp
  have "header_record headers col = map_of (rev (zip headers ?c))"
    by (simp add: header_record_map_of zip_take_length)
  also have "\<dots> = map_of (zip headers ?c)"
    using assms(1) len by (intro map_of_rev_distinct) simp
  finally have "header_record headers col (headers ! i) = map_of (zip headers ?c) (headers ! i)"
    by simp
  also have "\<dots> = Some (?c ! i)"
    using len assms(1) assms(3) by (intro map_of_zip_nth) simp_all
  finally show ?thesis using assms(3) by simp
qed

lemma header_record_dom:
  assumes "length headers \<le> length col"
  shows "dom (header_record headers col) = set headers"
proof -
  let ?c = "take (length headers) col"
  have len: "length headers = length ?c" using assms by simp
  have "dom (header_record headers col) = set (map fst (zip headers ?c))"
    by (simp add: header_record_map_of dom_map_of_conv_image_fst zip_take_length)
  also from len have "map fst (zip headers ?c) = headers"
    by (rule map_fst_zip)
  finally show ?thesis .
qed

lemma websites_Some: "websites p = Some w \<longleftrightarrow> p = ''CoSSMic'' \<and> w = ''http://cossmic.eu/''"
  by (auto simp: websites_def web_template_def)

lemma regions_Some: "regions r = Some n \<longleftrightarrow> r = ''DE_konstanz'' \<and> n = ''Germany, Konstanz''"
  by (auto simp: regions_def region_template_def)

lemma types_Some:
  "types t = Some n \<longleftrightarrow> t = ''residential_4-person_suburb_building'' \<and>
     n = ''Residential building, located in the suburban area in a four-person household''"
  by (auto simp: types_def type_template_def)

lemma descriptions_default: "descriptions ''default'' = Some ''Energy in kWh''"
  by (simp add: descriptions_def descriptions_template_def)

lemma getitem_Inr [simp]: "getitem d k = Inr v \<longleftrightarrow> d k = Some v"
  by (simp add: getitem_def split: option.splits)

lemma getitem_Inl [simp]: "getitem d k = Inl e \<longleftrightarrow> d k = None \<and> e = KeyError k"
  by (auto simp: getitem_def split: option.splits)

lemma resolve_Inr:
  assumes "resolve h = Inr h'"
  shows "h ''project'' = Some ''CoSSMic'' \<and> h ''region'' = Some ''DE_konstanz'' \<and>
         h ''type'' = Some ''residential_4-person_suburb_building'' \<and>
         (\<exists>d. h' = h(''web'' \<mapsto> ''http://cossmic.eu/'', ''region'' \<mapsto> ''Germany, Konstanz'',
                   ''type'' \<mapsto> ''Residential building, located in the suburban area in a four-person household'',
                   ''description'' \<mapsto> d) \<and>
              d = (case h ''feed'' of None \<Rightarrow> ''Energy in kWh''
                   | Some f \<Rightarrow> (case descriptions f of None \<Rightarrow> ''Energy in kWh'' | Some x \<Rightarrow> x)))"
  using assms
  by (auto simp: resolve_def Let_def websites_Some regions_Some types_Some descriptions_default
      split: sum.splits py_error.splits option.splits)

lemma col_entry_Inr:
  assumes "col_entry headers col = Inr (field, source)"
  shows "\<exists>household feed.
           header_record headers col ''household'' = Some household \<and>
           header_record headers col ''feed'' = Some feed \<and>
           header_record headers col ''project'' = Some ''CoSSMic'' \<and>
           header_record headers col ''region'' = Some ''DE_konstanz'' \<and>
           header_record headers col ''type'' = Some ''residential_4-person_suburb_building'' \<and>
           field = field_template household feed
                     (case descriptions feed of None \<Rightarrow> ''Energy in kWh'' | Some x \<Rightarrow> x)
                     ''CoSSMic'' ''http://cossmic.eu/''
                     ''Residential building, located in the suburban area in a four-person household''
                     ''Germany, Konstanz'' \<and>
           source = source_template ''CoSSMic'' ''http://cossmic.eu/''
                     ''Residential building, located in the suburban area in a four-person household''"
proof -
  from assms obtain h' where r: "resolve (header_record headers col) = Inr h'"
    and f: "field_template_format h' = Inr field" and s: "source_template_format h' = Inr source"
    by (auto simp: col_entry_def split: sum.splits)
  note R = resolve_Inr [OF r]
  from R obtain d where h': "h' = (header_record headers col)(''web'' \<mapsto> ''http://cossmic.eu/'', ''region'' \<mapsto> ''Germany, Konstanz'',
                   ''type'' \<mapsto> ''Residential building, located in the suburban area in a four-person household'',
                   ''description'' \<mapsto> d)"
     and d: "d = (case header_record headers col ''feed'' of None \<Rightarrow> ''Energy in kWh''
                   | Some f \<Rightarrow> (case descriptions f of None \<Rightarrow> ''Energy in kWh'' | Some x \<Rightarrow> x))"
    by blast
  from f h' d R s show ?thesis
    by (auto simp: field_template_format_def source_template_format_def split: sum.splits)
qed

subsection \<open>The loops\<close>

lemma col_step_Inr:
  assumes "col_step info_cols headers col (fl, sl) = Inr (fl', sl')"
  shows "col \<noteq> [] \<and>
         (if is_info_col info_cols col then fl' = fl \<and> sl' = sl
          else \<exists>e. col_entry headers col = Inr e \<and> fl' = fl @ [fst e] \<and> sl' = sl @ [snd e])"
  using assms by (auto simp: col_step_def split: sum.splits if_splits)

lemma columns_loop_Inr:
  assumes "columns_loop info_cols headers df (fl, sl) = Inr (fl', sl')"
  shows "[] \<notin> set df \<and>
     (\<exists>es. map (col_entry headers) (data_cols info_cols df) = map Inr es \<and>
           fl' = fl @ map fst es \<and> sl' = sl @ map snd es)"
  using assms
proof (induction df arbitrary: fl sl)
  case Nil
  then show ?case by (simp add: data_cols_def)
next
  case (Cons col df)
  from Cons.prems obtain fl1 sl1
    where step: "col_step info_cols headers col (fl, sl) = Inr (fl1, sl1)"
      and rest: "columns_loop info_cols headers df (fl1, sl1) = Inr (fl', sl')"
    by (auto split: sum.splits)
  from Cons.IH [OF rest] obtain es
    where ne: "[] \<notin> set df"
      and es: "map (col_entry headers) (data_cols info_cols df) = map Inr es"
      and fl': "fl' = fl1 @ map fst es" and sl': "sl' = sl1 @ map snd es"
    by blast
  note S = col_step_Inr [OF step]
  show ?case
  proof (cases "is_info_col info_cols col")
    case True
    with S have "fl1 = fl" "sl1 = sl" "col \<noteq> []" by simp_all
    moreover from True have "data_cols info_cols (col # df) = data_cols info_cols df"
      by (simp add: data_cols_def)
    ultimately show ?thesis using ne es fl' sl' by auto
  next
    case False
    with S obtain e where e: "col_entry headers col = Inr e"
      and "fl1 = fl @ [fst e]" "sl1 = sl @ [snd e]" "col \<noteq> []" by auto
    moreover from False have "data_cols info_cols (col # df) = col # data_cols info_cols df"
      by (simp add: data_cols_def)
    ultimately have "map (col_entry headers) (data_cols info_cols (col # df)) = map Inr (e # es)"
      "fl' = fl @ map fst (e # es)" "sl' = sl @ map snd (e # es)"
      using es fl' sl' by simp_all
    then show ?thesis using ne \<open>col \<noteq> []\<close> by (metis set_ConsD)
  qed
qed

lemma schemas_template_format_Inr:
  assumes "schemas_template_format res_key info_cols field_list = Inr entry"
  shows "''res_key'' \<notin> fst ` set info_cols \<and>
     (\<exists>utc cet marker. map_of info_cols ''utc'' = Some utc \<and> map_of info_cols ''cet'' = Some cet \<and>
        map_of info_cols ''marker'' = Some marker \<and>
        entry = schemas_template res_key utc cet marker field_list)"
  using assms by (auto simp: schemas_template_format_def split: sum.splits if_splits)

lemma res_step_Inr:
  assumes "res_step info_cols headers (res_key, df) (rl, sl, sd) = Inr (rl', sl', sd')"
  shows "[] \<notin> set df \<and> ''res_key'' \<notin> fst ` set info_cols \<and>
     (\<exists>es utc cet marker.
        map (col_entry headers) (data_cols info_cols df) = map Inr es \<and>
        map_of info_cols ''utc'' = Some utc \<and> map_of info_cols ''cet'' = Some cet \<and>
        map_of info_cols ''marker'' = Some marker \<and>
        rl' = rl @ [resource_template_format res_key] \<and>
        sl' = sl @ map snd es \<and>
        sd' = sd @ [schemas_template res_key utc cet marker (map fst es)])"
proof -
  from assms obtain fl entry
    where cl: "columns_loop info_cols headers df ([], sl) = Inr (fl, sl')"
      and st: "schemas_template_format res_key info_cols fl = Inr entry"
      and rl': "rl' = rl @ [resource_template_format res_key]"
      and sd': "sd' = sd @ [entry]"
    by (auto simp: res_step_def Let_def split: sum.splits prod.splits)
  from columns_loop_Inr [OF cl] schemas_template_format_Inr [OF st] rl' sd'
  show ?thesis by auto
qed

lemma col_entry_source:
  assumes "map (col_entry headers) cols = map Inr es"
  shows "set (map snd es) \<subseteq> {cossmic_source}"
proof
  fix s assume "s \<in> set (map snd es)"
  then obtain i where i: "i < length es" and s: "s = snd (es ! i)"
    by (auto simp: in_set_conv_nth)
  from assms have len: "length cols = length es"
    by (metis length_map)
  from assms i len have "col_entry headers (cols ! i) = Inr (es ! i)"
    by (metis nth_map)
  then have "col_entry headers (cols ! i) = Inr (fst (es ! i), snd (es ! i))" by simp
  from col_entry_Inr [OF this] s show "s \<in> {cossmic_source}"
    by (auto simp: cossmic_source_def)
qed

lemma data_sets_loop_Inr:
  assumes "data_sets_loop info_cols headers data_sets (rl, sl, sd) = Inr (rl', sl', sd')"
  shows "rl' = rl @ map (\<lambda>item. resource_template_format (fst item)) data_sets \<and>
         (\<exists>new. sd' = sd @ new \<and> map fst new = map fst data_sets) \<and>
         (\<exists>new. sl' = sl @ new \<and> set new \<subseteq> {cossmic_source} \<and>
            (new = [] \<longleftrightarrow> (\<forall>item \<in> set data_sets. data_cols info_cols (snd item) = []))) \<and>
         (\<forall>item \<in> set data_sets. [] \<notin> set (snd item) \<and>
            (\<exists>es utc cet marker.
               map (col_entry headers) (data_cols info_cols (snd item)) = map Inr es \<and>
               map_of info_cols ''utc'' = Some utc \<and> map_of info_cols ''cet'' = Some cet \<and>
               map_of info_cols ''marker'' = Some marker \<and>
               schemas_template (fst item) utc cet marker (map fst es) \<in> set sd'))"
  using assms
proof (induction data_sets arbitrary: rl sl sd)
  case Nil
  then show ?case by simp
next
  case (Cons item items)
  obtain res_key df where item: "item = (res_key, df)" by (cases item)
  from Cons.prems obtain rl1 sl1 sd1
    where step: "res_step info_cols headers (res_key, df) (rl, sl, sd) = Inr (rl1, sl1, sd1)"
      and rest: "data_sets_loop info_cols headers items (rl1, sl1, sd1) = Inr (rl', sl', sd')"
    by (auto simp: item split: sum.splits)
  from res_step_Inr [OF step] obtain es utc cet marker
    where ne: "[] \<notin> set df"
      and es: "map (col_entry headers) (data_cols info_cols df) = map Inr es"
      and ic: "map_of info_cols ''utc'' = Some utc" "map_of info_cols ''cet'' = Some cet"
        "map_of info_cols ''marker'' = Some marker"
      and rl1: "rl1 = rl @ [resource_template_format res_key]"
      and sl1: "sl1 = sl @ map snd es"
      and sd1: "sd1 = sd @ [schemas_template res_key utc cet marker (map fst es)]"
    by blast
  from Cons.IH [OF rest] obtain new_sd new_sl
    where rl': "rl' = rl1 @ map (\<lambda>item. resource_template_format (fst item)) items"
      and sd': "sd' = sd1 @ new_sd" "map fst new_sd = map fst items"
      and sl': "sl' = sl1 @ new_sl" "set new_sl \<subseteq> {cossmic_source}"
        "new_sl = [] \<longleftrightarrow> (\<forall>item \<in> set items. data_cols info_cols (snd item) = [])"
      and mem: "\<forall>item \<in> set items. [] \<notin> set (snd item) \<and>
            (\<exists>es utc cet marker.
               map (col_entry headers) (data_cols info_cols (snd item)) = map Inr es \<and>
               map_of info_cols ''utc'' = Some utc \<and> map_of info_cols ''cet'' = Some cet \<and>
               map_of info_cols ''marker'' = Some marker \<and>
               schemas_template (fst item) utc cet marker (map fst es) \<in> set sd')"
    by blast
  have A: "rl' = rl @ map (\<lambda>item. resource_template_format (fst item)) (item # items)"
    using rl' rl1 item by simp
  have B: "\<exists>new. sd' = sd @ new \<and> map fst new = map fst (item # items)"
    using sd' sd1 item by (simp add: schemas_template_def)
  have len: "length (data_cols info_cols df) = length es"
    using es by (metis length_map)
  have C: "\<exists>new. sl' = sl @ new \<and> set new \<subseteq> {cossmic_source} \<and>
            (new = [] \<longleftrightarrow> (\<forall>item \<in> set (item # items). data_cols info_cols (snd item) = []))"
  proof (intro exI conjI)
    show "sl' = sl @ (map snd es @ new_sl)" using sl' sl1 by simp
    show "set (map snd es @ new_sl) \<subseteq> {cossmic_source}"
      using col_entry_source [OF es] sl'(2) by simp
    show "map snd es @ new_sl = [] \<longleftrightarrow>
            (\<forall>item \<in> set (item # items). data_cols info_cols (snd item) = [])"
      using sl'(3) len item by auto
  qed
  have D: "\<forall>item \<in> set (item # items). [] \<notin> set (snd item) \<and>
            (\<exists>es utc cet marker.
               map (col_entry headers) (data_cols info_cols (snd item)) = map Inr es \<and>
               map_of info_cols ''utc'' = Some utc \<and> map_of info_cols ''cet'' = Some cet \<and>
               map_of info_cols ''marker'' = Some marker \<and>
               schemas_template (fst item) utc cet marker (map fst es) \<in> set sd')"
  proof
    fix it assume "it \<in> set (item # items)"
    then consider "it = item" | "it \<in> set items" by auto
    then show "[] \<notin> set (snd it) \<and>
            (\<exists>es utc cet marker.
               map (col_entry headers) (data_cols info_cols (snd it)) = map Inr es \<and>
               map_of info_cols ''utc'' = Some utc \<and> map_of info_cols ''cet'' = Some cet \<and>
               map_of info_cols ''marker'' = Some marker \<and>
               schemas_template (fst it) utc cet marker (map fst es) \<in> set sd')"
    proof cases
      case 1
      have "schemas_template res_key utc cet marker (map fst es) \<in> set sd'"
        using sd' sd1 by simp
      with 1 item ne es ic show ?thesis by auto
    next
      case 2
      with mem show ?thesis by blast
    qed
  qed
  from A B C D show ?case by blast
qed

subsection \<open>The outcomes of a run\<close>

lemma make_json_Inr:
  assumes "make_json data_sets info_cols version changes headers fs (Inr out)"
  obtains resource_list source_list schemas_dict sources where
    "data_sets_loop info_cols headers data_sets ([resource_xlsx], [], [])
       = Inr (resource_list, source_list, schemas_dict)"
    "source_list \<noteq> []" "set_iteration source_list sources"
    "out = \<lparr>returned = PyNone,
            files = fs(''datapackage.json'' \<mapsto>
              Json_dumps (metadata version changes sources resource_list schemas_dict))\<rparr>"
  using assms by (cases rule: make_json.cases) auto

lemma make_json_Inl:
  assumes "make_json data_sets info_cols version changes headers fs (Inl e)"
  shows "data_sets_loop info_cols headers data_sets ([resource_xlsx], [], []) = Inl e \<or>
         (\<exists>resource_list schemas_dict.
            data_sets_loop info_cols headers data_sets ([resource_xlsx], [], [])
              = Inr (resource_list, [], schemas_dict) \<and>
            e = TypeError ''NoneType object is not iterable'')"
  using assms by (cases rule: make_json.cases) auto

lemma datapackage_upd [simp]:
  "datapackage (fs(''datapackage.json'' \<mapsto> Json_dumps d)) = Some d"
  by (simp add: datapackage_def)

lemma metadata_sources:
  "dict_get (metadata version changes sources rl sd) ''sources''
     = Some (PyList (map source_dict sources))"
  by (simp add: metadata_def metadata_head_format_def dict_get_def)




lemma inj_source_dict: "inj source_dict"
proof (rule injI)
  fix x y :: source_items
  assume "source_dict x = source_dict y"
  then have "map (\<lambda>(k, v). (k, PyStr v)) x = map (\<lambda>(k, v). (k, PyStr v)) y"
    by (simp add: source_dict_def)
  moreover have "inj (\<lambda>(k :: string, v). (k, PyStr v))"
    by (auto simp: inj_on_def)
  ultimately show "x = y" by (simp only: inj_map_eq_map)
qed

subsection \<open>The run on the synthetic data set\<close>

lemma example_loop:
  "data_sets_loop example_info_cols example_headers example_data_sets ([resource_xlsx], [], [])
     = Inr ([resource_xlsx, resource_template_format ''15min''],
            [cossmic_source],
            [schemas_template ''15min'' ''utc_timestamp'' ''cet_cest_timestamp'' ''interpolated''
               [field_template ''DE_KN_residential1'' ''pv''
                  ''Total Photovoltaic energy generation in kWh'' ''CoSSMic'' ''http://cossmic.eu/''
                  ''Residential building, located in the suburban area in a four-person household''
                  ''Germany, Konstanz'']])"
  by (simp add: example_info_cols_def example_headers_def example_data_sets_def example_pv_col_def
      example_frame_def res_step_def col_step_def is_info_col_def dict_values_def col_entry_def header_record_def
      resolve_def getitem_def websites_def web_template_def regions_def region_template_def
      types_def type_template_def descriptions_def descriptions_template_def
      field_template_format_def source_template_format_def schemas_template_format_def
      cossmic_source_def)

lemma example_run:
  "make_json example_data_sets example_info_cols ''2020-04-15'' ''Initial release''
     example_headers Map.empty (Inr example_outcome)"
  unfolding example_outcome_def example_document_def
  by (rule make_json.written [OF example_loop]) (simp_all add: set_iteration_def)



lemma map_Inr_nth:
  assumes "map f xs = map Inr es" "i < length xs"
  shows "f (xs ! i) = Inr (es ! i)" "length es = length xs"
proof -
  from assms(1) show len: "length es = length xs" by (metis length_map)
  from assms len show "f (xs ! i) = Inr (es ! i)" by (metis nth_map)
qed


lemma example_pv_record:
  "header_record example_headers example_pv_col ''household'' = Some ''DE_KN_residential1''"
  "header_record example_headers example_pv_col ''feed'' = Some ''pv''"
  "header_record example_headers example_pv_col ''project'' = Some ''CoSSMic''"
  "header_record example_headers example_pv_col ''region'' = Some ''DE_konstanz''"
  "header_record example_headers example_pv_col ''type''
     = Some ''residential_4-person_suburb_building''"
  by (simp_all add: header_record_def example_headers_def example_pv_col_def)

lemma example_data_cols: "data_cols example_info_cols example_frame = [example_pv_col]"
  by (simp add: data_cols_def example_frame_def is_info_col_def example_info_cols_def
      example_pv_col_def dict_values_def)




lemma resource_schema_key [simp]:
  "dict_get (resource_template_format k) ''schema'' = Some (PyStr k)"
  "dict_get resource_xlsx ''schema'' = None"
  by (simp_all add: resource_template_format_def resource_xlsx_def dict_get_def)




lemma columns_loop_skip:
  assumes "[] \<notin> set df"
  shows "columns_loop info_cols headers df acc
           = columns_loop info_cols headers (data_cols info_cols df) acc"
  using assms
proof (induction df arbitrary: acc)
  case Nil
  then show ?case by (simp add: data_cols_def)
next
  case (Cons col df)
  obtain fl sl where acc: "acc = (fl, sl)" by (cases acc)
  from Cons.prems have ne: "col \<noteq> []" "[] \<notin> set df" by auto
  show ?case
  proof (cases "is_info_col info_cols col")
    case True
    with ne have "col_step info_cols headers col acc = Inr acc"
      by (simp add: col_step_def acc)
    moreover from True have "data_cols info_cols (col # df) = data_cols info_cols df"
      by (simp add: data_cols_def)
    ultimately show ?thesis using Cons.IH [OF ne(2)] by simp
  next
    case False
    then have "data_cols info_cols (col # df) = col # data_cols info_cols df"
      by (simp add: data_cols_def)
    then show ?thesis using Cons.IH [OF ne(2)] by (simp split: sum.splits)
  qed
qed

lemma run_col_entry:
  assumes run: "make_json data_sets info_cols version changes headers fs (Inr out)"
    and mem: "(res_key, df) \<in> set data_sets" "col \<in> set df" "\<not> is_info_col info_cols col"
  shows "\<exists>e. col_entry headers col = Inr e"
proof -
  from run obtain rl sl sd
    where loop: "data_sets_loop info_cols headers data_sets ([resource_xlsx], [], []) = Inr (rl, sl, sd)"
    by (rule make_json_Inr)
  from data_sets_loop_Inr [OF loop] mem(1) obtain es
    where es: "map (col_entry headers) (data_cols info_cols df) = map Inr es"
    by fastforce
  from mem have "col \<in> set (data_cols info_cols df)"
    by (simp add: data_cols_def)
  then obtain i where i: "i < length (data_cols info_cols df)"
    and ci: "data_cols info_cols df ! i = col"
    by (auto simp: in_set_conv_nth)
  from map_Inr_nth(1) [OF es i] ci show ?thesis by auto
qed

text \<open>
  C1. For a column that is processed, a feed code that the description table lacks gives
  the field the default description \<^verbatim>\<open>Energy in kWh\<close>, without an error: the record that
  the lookups leave carries that description, and so does the field. A project, region
  or building type code that its table lacks raises the \<^verbatim>\<open>KeyError\<close> of the first such code,
  in the order project, region, type; nothing catches it, so a run over a collection with
  such a column never writes a document: each of its outcomes is an error.
\<close>

theorem feed_defaults_other_lookups_fatal:
  "(header_record headers col ''household'' = Some household \<and>
    header_record headers col ''feed'' = Some feed \<and> descriptions feed = None \<and>
    header_record headers col ''project'' = Some project \<and> websites project \<noteq> None \<and>
    header_record headers col ''region'' = Some region \<and> regions region \<noteq> None \<and>
    header_record headers col ''type'' = Some ty \<and> types ty \<noteq> None \<longrightarrow>
      (\<exists>field source. col_entry headers col = Inr (field, source) \<and>
         dict_get field ''description'' = Some (PyStr ''Energy in kWh''))) \<and>
   (header_record headers col ''feed'' = Some feed \<and> descriptions feed = None \<and>
    resolve (header_record headers col) = Inr h' \<longrightarrow>
      h' ''description'' = Some ''Energy in kWh'') \<and>
   (header_record headers col ''project'' = Some project \<and>
    header_record headers col ''region'' = Some region \<and>
    header_record headers col ''type'' = Some ty \<and>
    (websites project = None \<or> regions region = None \<or> types ty = None) \<longrightarrow>
      col_entry headers col
        = Inl (KeyError (if websites project = None then project
                         else if regions region = None then region else ty)) \<and>
      ((res_key, df) \<in> set data_sets \<and> col \<in> set df \<and> \<not> is_info_col info_cols col \<longrightarrow>
         (\<forall>out. make_json data_sets info_cols version changes headers fs out \<longrightarrow>
            (\<exists>e. out = Inl e))))"
proof (intro conjI impI allI)
  assume "header_record headers col ''household'' = Some household \<and>
    header_record headers col ''feed'' = Some feed \<and> descriptions feed = None \<and>
    header_record headers col ''project'' = Some project \<and> websites project \<noteq> None \<and>
    header_record headers col ''region'' = Some region \<and> regions region \<noteq> None \<and>
    header_record headers col ''type'' = Some ty \<and> types ty \<noteq> None"
  then show "\<exists>field source. col_entry headers col = Inr (field, source) \<and>
         dict_get field ''description'' = Some (PyStr ''Energy in kWh'')"
    by (auto simp: col_entry_def resolve_def Let_def getitem_def descriptions_default
        field_template_format_def source_template_format_def field_template_def dict_get_def)
next
  assume f: "header_record headers col ''feed'' = Some feed \<and> descriptions feed = None \<and>
    resolve (header_record headers col) = Inr h'"
  then have "resolve (header_record headers col) = Inr h'" by simp
  from resolve_Inr [OF this] f show "h' ''description'' = Some ''Energy in kWh''"
    by auto
next
  assume a: "header_record headers col ''project'' = Some project \<and>
    header_record headers col ''region'' = Some region \<and>
    header_record headers col ''type'' = Some ty \<and>
    (websites project = None \<or> regions region = None \<or> types ty = None)"
  then show e: "col_entry headers col
        = Inl (KeyError (if websites project = None then project
                         else if regions region = None then region else ty))"
    by (auto simp: col_entry_def resolve_def Let_def getitem_def)
  fix out
  assume mem: "(res_key, df) \<in> set data_sets \<and> col \<in> set df \<and> \<not> is_info_col info_cols col"
    and run: "make_json data_sets info_cols version changes headers fs out"
  show "\<exists>e. out = Inl e"
  proof (cases out)
    case (Inl e')
    then show ?thesis by simp
  next
    case (Inr r)
    with run have "make_json data_sets info_cols version changes headers fs (Inr r)"
      by simp
    from run_col_entry [OF this] mem have "\<exists>e. col_entry headers col = Inr e"
      by blast
    with e show ?thesis by simp
  qed
qed

lemma example_other_run:
  "make_json example_other_data_sets example_info_cols ''2020-04-15'' ''Initial release''
     example_headers Map.empty (Inl (KeyError ''Other''))"
  by (rule make_json.loop_raises)
    (simp add: example_other_data_sets_def example_info_cols_def example_headers_def
      example_project_col_def res_step_def col_step_def is_info_col_def dict_values_def
      col_entry_def header_record_def resolve_def getitem_def websites_def web_template_def)

theorem feed_defaults_other_lookups_fatal_witness:
  "header_record example_headers example_oven_col ''household'' = Some ''DE_KN_residential1'' \<and>
   header_record example_headers example_oven_col ''feed'' = Some ''oven'' \<and>
   descriptions ''oven'' = None \<and>
   header_record example_headers example_oven_col ''project'' = Some ''CoSSMic'' \<and>
   websites ''CoSSMic'' \<noteq> None \<and>
   header_record example_headers example_oven_col ''region'' = Some ''DE_konstanz'' \<and>
   regions ''DE_konstanz'' \<noteq> None \<and>
   header_record example_headers example_oven_col ''type''
     = Some ''residential_4-person_suburb_building'' \<and>
   types ''residential_4-person_suburb_building'' \<noteq> None \<and>
   (\<exists>field source. col_entry example_headers example_oven_col = Inr (field, source) \<and>
      dict_get field ''description'' = Some (PyStr ''Energy in kWh'')) \<and>
   (\<exists>h'. resolve (header_record example_headers example_oven_col) = Inr h' \<and>
      h' ''description'' = Some ''Energy in kWh'') \<and>
   header_record example_headers example_project_col ''project'' = Some ''Other'' \<and>
   header_record example_headers example_project_col ''region'' = Some ''DE_konstanz'' \<and>
   header_record example_headers example_project_col ''type''
     = Some ''residential_4-person_suburb_building'' \<and>
   websites ''Other'' = None \<and>
   col_entry example_headers example_project_col = Inl (KeyError ''Other'') \<and>
   (''15min'', [[''utc_timestamp'', [], [], [], []], example_project_col])
     \<in> set example_other_data_sets \<and>
   example_project_col \<in> set [[''utc_timestamp'', [], [], [], []], example_project_col] \<and>
   \<not> is_info_col example_info_cols example_project_col \<and>
   make_json example_other_data_sets example_info_cols ''2020-04-15'' ''Initial release''
     example_headers Map.empty (Inl (KeyError ''Other'')) \<and>
   \<not> (\<exists>r. make_json example_other_data_sets example_info_cols ''2020-04-15'' ''Initial release''
            example_headers Map.empty (Inr r))"
proof -
  have oven: "header_record example_headers example_oven_col ''household'' = Some ''DE_KN_residential1''"
    "header_record example_headers example_oven_col ''feed'' = Some ''oven''"
    "header_record example_headers example_oven_col ''project'' = Some ''CoSSMic''"
    "header_record example_headers example_oven_col ''region'' = Some ''DE_konstanz''"
    "header_record example_headers example_oven_col ''type''
       = Some ''residential_4-person_suburb_building''"
    by (simp_all add: header_record_def example_headers_def example_oven_col_def)
  have tables: "descriptions ''oven'' = None" "websites ''CoSSMic'' \<noteq> None"
    "regions ''DE_konstanz'' \<noteq> None" "types ''residential_4-person_suburb_building'' \<noteq> None"
    "websites ''Other'' = None"
    by (simp_all add: descriptions_def descriptions_template_def websites_def web_template_def
        regions_def region_template_def types_def type_template_def)
  have other: "header_record example_headers example_project_col ''project'' = Some ''Other''"
    "header_record example_headers example_project_col ''region'' = Some ''DE_konstanz''"
    "header_record example_headers example_project_col ''type''
       = Some ''residential_4-person_suburb_building''"
    by (simp_all add: header_record_def example_headers_def example_project_col_def)
  have mem: "(''15min'', [[''utc_timestamp'', [], [], [], []], example_project_col])
               \<in> set example_other_data_sets"
    "example_project_col \<in> set [[''utc_timestamp'', [], [], [], []], example_project_col]"
    "\<not> is_info_col example_info_cols example_project_col"
    by (simp_all add: example_other_data_sets_def is_info_col_def example_info_cols_def
        example_project_col_def dict_values_def)
  have "\<exists>h'. resolve (header_record example_headers example_oven_col) = Inr h'"
    by (simp add: resolve_def Let_def getitem_def header_record_def example_headers_def
        example_oven_col_def websites_def web_template_def regions_def region_template_def
        types_def type_template_def descriptions_def descriptions_template_def)
  then obtain h' where h': "resolve (header_record example_headers example_oven_col) = Inr h'" ..
  note F = feed_defaults_other_lookups_fatal
    [where headers = example_headers and col = example_oven_col
      and household = "''DE_KN_residential1''" and feed = "''oven''" and project = "''CoSSMic''"
      and region = "''DE_konstanz''" and ty = "''residential_4-person_suburb_building''"
      and h' = h' and res_key = "''15min''" and df = "[]" and data_sets = "[]"
      and info_cols = "[]" and version = "[]" and changes = "[]" and fs = Map.empty]
  note G = feed_defaults_other_lookups_fatal
    [where headers = example_headers and col = example_project_col
      and household = "[]" and feed = "[]" and project = "''Other''"
      and region = "''DE_konstanz''" and ty = "''residential_4-person_suburb_building''"
      and h' = Map.empty and res_key = "''15min''"
      and df = "[[''utc_timestamp'', [], [], [], []], example_project_col]"
      and data_sets = example_other_data_sets and info_cols = example_info_cols
      and version = "''2020-04-15''" and changes = "''Initial release''" and fs = Map.empty]
  from F [THEN conjunct2, THEN conjunct1] oven tables h'
  have "h' ''description'' = Some ''Energy in kWh''"
    by blast
  with h' have 0: "\<exists>h'. resolve (header_record example_headers example_oven_col) = Inr h' \<and>
      h' ''description'' = Some ''Energy in kWh''"
    by blast
  from F [THEN conjunct1] oven tables
  have 1: "\<exists>field source. col_entry example_headers example_oven_col = Inr (field, source) \<and>
      dict_get field ''description'' = Some (PyStr ''Energy in kWh'')"
    by blast
  from other tables
  have pre: "header_record example_headers example_project_col ''project'' = Some ''Other'' \<and>
    header_record example_headers example_project_col ''region'' = Some ''DE_konstanz'' \<and>
    header_record example_headers example_project_col ''type''
      = Some ''residential_4-person_suburb_building'' \<and>
    (websites ''Other'' = None \<or> regions ''DE_konstanz'' = None \<or>
     types ''residential_4-person_suburb_building'' = None)"
    by blast
  note H = G [THEN conjunct2, THEN conjunct2, THEN mp, OF pre]
  from H [THEN conjunct1] tables
  have 2: "col_entry example_headers example_project_col = Inl (KeyError ''Other'')"
    by simp
  from mem
  have "(''15min'', [[''utc_timestamp'', [], [], [], []], example_project_col])
          \<in> set example_other_data_sets \<and>
        example_project_col \<in> set [[''utc_timestamp'', [], [], [], []], example_project_col] \<and>
        \<not> is_info_col example_info_cols example_project_col"
    by blast
  note 3 = H [THEN conjunct2, THEN mp, OF this]
  from 3 have 4: "\<not> (\<exists>r. make_json example_other_data_sets example_info_cols ''2020-04-15''
             ''Initial release'' example_headers Map.empty (Inr r))"
    by blast
  from oven tables other mem 0 1 2 4 example_other_run show ?thesis
    by (intro conjI)
qed

text \<open>
  C6, as the code has it. A successful call returns \<^verbatim>\<open>None\<close>; the assembled metadata goes to
  the file \<^verbatim>\<open>datapackage.json\<close>, which is replaced, and no other file changes.
\<close>

theorem returns_none_writes_datapackage:
  assumes "make_json data_sets info_cols version changes headers fs (Inr out)"
  shows "returned out = PyNone \<and>
         (\<exists>resource_list source_list schemas_dict sources.
            data_sets_loop info_cols headers data_sets ([resource_xlsx], [], [])
              = Inr (resource_list, source_list, schemas_dict) \<and>
            set_iteration source_list sources \<and>
            files out = fs(''datapackage.json'' \<mapsto>
              Json_dumps (metadata version changes sources resource_list schemas_dict)))"
  using assms by (rule make_json_Inr) auto

theorem returns_none_writes_datapackage_witness:
  "make_json example_data_sets example_info_cols ''2020-04-15'' ''Initial release''
     example_headers Map.empty (Inr example_outcome) \<and>
   returned example_outcome = PyNone \<and>
   (\<exists>resource_list source_list schemas_dict sources.
      data_sets_loop example_info_cols example_headers example_data_sets ([resource_xlsx], [], [])
        = Inr (resource_list, source_list, schemas_dict) \<and>
      set_iteration source_list sources \<and>
      files example_outcome = Map.empty(''datapackage.json'' \<mapsto>
        Json_dumps (metadata ''2020-04-15'' ''Initial release'' sources resource_list
          schemas_dict)))"
  using returns_none_writes_datapackage [OF example_run] example_run by simp

text \<open>
  The claim C6 as stated fails on the synthetic data set: the run returns \<^verbatim>\<open>None\<close>, which is
  not the document it has written.
\<close>

theorem returns_document_counterexample:
  "make_json example_data_sets example_info_cols ''2020-04-15'' ''Initial release''
     example_headers Map.empty (Inr example_outcome) \<and>
   datapackage (files example_outcome) = Some example_document \<and>
   returned example_outcome = PyNone \<and>
   returned example_outcome \<noteq> example_document"
proof -
  have "datapackage (files example_outcome) = Some example_document"
    "returned example_outcome = PyNone"
    by (simp_all add: example_outcome_def)
  moreover have "returned example_outcome \<noteq> example_document"
    by (simp add: example_outcome_def example_document_def metadata_def)
  ultimately show ?thesis using example_run by simp
qed



text \<open>
  With the lookup tables of the module every source entry is the same one, so the set has a
  single element and a run has only one possible outcome.
\<close>

lemma make_json_deterministic:
  assumes "make_json data_sets info_cols version changes headers fs out1"
    and "make_json data_sets info_cols version changes headers fs out2"
  shows "out1 = out2"
proof -
  have single: "sources = sources'"
    if "set_iteration source_list sources" "set_iteration source_list sources'"
      "data_sets_loop info_cols headers data_sets ([resource_xlsx], [], [])
         = Inr (resource_list, source_list, schemas_dict)"
    for resource_list source_list schemas_dict and sources sources' :: "source_items list"
  proof -
    from data_sets_loop_Inr [OF that(3)] have sub: "set source_list \<subseteq> {cossmic_source}"
      by auto
    have one: "xs = [cossmic_source] \<or> xs = []"
      if "distinct xs" "set xs \<subseteq> {cossmic_source}" for xs :: "source_items list"
      using that by (cases xs; cases "tl xs") auto
    from that(1,2) sub have "distinct sources" "set sources \<subseteq> {cossmic_source}"
      "distinct sources'" "set sources' \<subseteq> {cossmic_source}" "set sources = set sources'"
      by (auto simp: set_iteration_def)
    with one [of sources] one [of sources'] show ?thesis by auto
  qed
  from assms(1) show ?thesis
  proof (cases rule: make_json.cases)
    case (loop_raises e)
    with assms(2) show ?thesis by (cases rule: make_json.cases) auto
  next
    case (load_raises resource_list schemas_dict)
    with assms(2) show ?thesis by (cases rule: make_json.cases) auto
  next
    case w1: (written resource_list source_list schemas_dict sources)
    from assms(2) show ?thesis
    proof (cases rule: make_json.cases)
      case (loop_raises e)
      with w1 show ?thesis by simp
    next
      case (load_raises resource_list' schemas_dict')
      with w1 show ?thesis by simp
    next
      case w2: (written resource_list' source_list' schemas_dict' sources')
      from w1(2) w2(2) have same: "resource_list' = resource_list" "source_list' = source_list"
        "schemas_dict' = schemas_dict" by simp_all
      from single [OF w1(4) w2(4) [unfolded same] w1(2)] w1(1) w2(1) same show ?thesis by simp
    qed
  qed
qed

lemma columns_loop_all_info:
  assumes "\<forall>col \<in> set df. col \<noteq> [] \<and> is_info_col info_cols col"
  shows "columns_loop info_cols headers df acc = Inr acc"
proof -
  from assms have "[] \<notin> set df" by auto
  moreover from assms have "data_cols info_cols df = []"
    by (auto simp: data_cols_def filter_empty_conv)
  ultimately show ?thesis
    using columns_loop_skip [of df info_cols headers acc] by simp
qed

lemma data_sets_loop_all_info:
  assumes "\<forall>item \<in> set data_sets. \<forall>col \<in> set (snd item). col \<noteq> [] \<and> is_info_col info_cols col"
    and "''res_key'' \<notin> fst ` set info_cols" "map_of info_cols ''utc'' \<noteq> None"
      "map_of info_cols ''cet'' \<noteq> None" "map_of info_cols ''marker'' \<noteq> None"
  shows "\<exists>rl' sd'. data_sets_loop info_cols headers data_sets (rl, sl, sd) = Inr (rl', sl, sd')"
  using assms(1)
proof (induction data_sets arbitrary: rl sd)
  case Nil
  then show ?case by simp
next
  case (Cons item items)
  obtain res_key df where item: "item = (res_key, df)" by (cases item)
  from Cons.prems item have "\<forall>col \<in> set df. col \<noteq> [] \<and> is_info_col info_cols col"
    by simp
  then have cl: "columns_loop info_cols headers df ([], sl) = Inr ([], sl)"
    by (rule columns_loop_all_info)
  from assms(2-5) have "\<exists>entry. schemas_template_format res_key info_cols [] = Inr entry"
    by (auto simp: schemas_template_format_def getitem_def image_iff)
  then obtain entry where "schemas_template_format res_key info_cols [] = Inr entry" ..
  with cl have "res_step info_cols headers item (rl, sl, sd)
                  = Inr (rl @ [resource_template_format res_key], sl, sd @ [entry])"
    by (simp add: res_step_def item)
  moreover from Cons.prems
  have "\<exists>rl' sd'. data_sets_loop info_cols headers items
          (rl @ [resource_template_format res_key], sl, sd @ [entry]) = Inr (rl', sl, sd')"
    by (intro Cons.IH) simp
  ultimately show ?case by simp
qed

lemma data_sets_loop_no_sources:
  assumes "\<forall>item \<in> set data_sets. \<forall>col \<in> set (snd item). col \<noteq> [] \<and> is_info_col info_cols col"
    and "data_sets_loop info_cols headers data_sets (rl, sl, sd) = Inr (rl', sl', sd')"
  shows "sl' = sl"
proof -
  from assms(1) have "\<forall>item \<in> set data_sets. data_cols info_cols (snd item) = []"
    by (auto simp: data_cols_def filter_empty_conv)
  with data_sets_loop_Inr [OF assms(2)] show ?thesis by auto
qed

lemma make_json_of_error:
  assumes "data_sets_loop info_cols headers data_sets ([resource_xlsx], [], []) = Inl e"
  shows "make_json data_sets info_cols version changes headers fs out \<longleftrightarrow> out = Inl e"
proof
  assume "make_json data_sets info_cols version changes headers fs out"
  then show "out = Inl e" using assms by (cases rule: make_json.cases) auto
next
  assume "out = Inl e"
  with assms show "make_json data_sets info_cols version changes headers fs out"
    by (auto intro: make_json.loop_raises)
qed

lemma make_json_of_no_sources:
  assumes "data_sets_loop info_cols headers data_sets ([resource_xlsx], [], [])
             = Inr (resource_list, [], schemas_dict)"
  shows "make_json data_sets info_cols version changes headers fs out
           \<longleftrightarrow> out = Inl (TypeError ''NoneType object is not iterable'')"
proof
  assume "make_json data_sets info_cols version changes headers fs out"
  then show "out = Inl (TypeError ''NoneType object is not iterable'')"
    using assms by (cases rule: make_json.cases) auto
next
  assume "out = Inl (TypeError ''NoneType object is not iterable'')"
  with assms show "make_json data_sets info_cols version changes headers fs out"
    by (auto intro: make_json.load_raises)
qed

lemma example_info_run:
  "make_json example_info_data_sets example_info_cols ''2020-04-15'' ''Initial release''
     example_headers Map.empty (Inl (TypeError ''NoneType object is not iterable''))"
  by (rule make_json.load_raises
        [of _ _ _ "[resource_xlsx, resource_template_format ''15min'']"
           "[schemas_template ''15min'' ''utc_timestamp'' ''cet_cest_timestamp'' ''interpolated'' []]"])
    (simp add: example_info_data_sets_def example_info_cols_def res_step_def col_step_def
      is_info_col_def dict_values_def schemas_template_format_def getitem_def)

subsection \<open>The run on the second collection\<close>

lemma plain_examples:
  "plain_scalar ''15min''" "plain_scalar ''60min''" "plain_scalar ''DE_KN_residential1''"
  "plain_scalar ''DE_KN_residential2''" "plain_scalar ''pv''" "plain_scalar ''consumption''"
  "plain_scalar ''oven''" "plain_scalar ''utc_timestamp''" "plain_scalar ''cet_cest_timestamp''"
  "plain_scalar ''interpolated''" "\<not> plain_scalar ''60''" "\<not> plain_scalar ''01''"
  "\<not> plain_scalar ''true''" "\<not> plain_scalar []" "\<not> plain_scalar ''0x1F''"
  "quoted_scalar ''2020-04-15''" "quoted_scalar ''Initial release''"
  by (simp_all add: plain_scalar_def quoted_scalar_def name_chars_def digit_chars_def
      word_letters_def yaml_words_def)

lemma example_two_loop:
  "data_sets_loop example_info_cols example_headers example_two_data_sets ([resource_xlsx], [], [])
     = Inr ([resource_xlsx, resource_template_format ''15min'', resource_template_format ''60min''],
            [cossmic_source, cossmic_source, cossmic_source, cossmic_source],
            [schemas_template ''15min'' ''utc_timestamp'' ''cet_cest_timestamp'' ''interpolated''
               [example_pv_field, example_load_field, example_oven_field],
             schemas_template ''60min'' ''utc_timestamp'' ''cet_cest_timestamp'' ''interpolated''
               [example_pv_field]])"
  by (simp add: example_info_cols_def example_headers_def example_two_data_sets_def
      example_pv_col_def example_load_col_def example_oven_col_def
      example_frame_def example_wide_frame_def res_step_def col_step_def is_info_col_def
      dict_values_def col_entry_def header_record_def
      resolve_def getitem_def websites_def web_template_def regions_def region_template_def
      types_def type_template_def descriptions_def descriptions_template_def
      field_template_format_def source_template_format_def schemas_template_format_def
      cossmic_source_def example_pv_field_def example_load_field_def example_oven_field_def)

lemma example_two_run:
  "make_json example_two_data_sets example_info_cols ''2020-04-15'' ''Initial release''
     example_headers Map.empty (Inr example_two_outcome)"
  unfolding example_two_outcome_def example_two_document_def
  by (rule make_json.written [OF example_two_loop]) (simp_all add: set_iteration_def)


lemma example_wide_data_cols:
  "data_cols example_info_cols example_wide_frame
     = [example_pv_col, example_load_col, example_oven_col]"
  by (simp add: data_cols_def example_wide_frame_def is_info_col_def example_info_cols_def
      example_pv_col_def example_load_col_def example_oven_col_def dict_values_def)




lemma data_sets_loop_source_count:
  assumes "data_sets_loop info_cols headers data_sets (rl, sl, sd) = Inr (rl', sl', sd')"
  shows "length sl'
           = length sl + length (concat (map (\<lambda>item. data_cols info_cols (snd item)) data_sets))"
  using assms
proof (induction data_sets arbitrary: rl sl sd)
  case Nil
  then show ?case by simp
next
  case (Cons item items)
  obtain res_key df where item: "item = (res_key, df)" by (cases item)
  from Cons.prems obtain rl1 sl1 sd1
    where step: "res_step info_cols headers (res_key, df) (rl, sl, sd) = Inr (rl1, sl1, sd1)"
      and rest: "data_sets_loop info_cols headers items (rl1, sl1, sd1) = Inr (rl', sl', sd')"
    by (auto simp: item split: sum.splits)
  from res_step_Inr [OF step] obtain es
    where es: "map (col_entry headers) (data_cols info_cols df) = map Inr es"
      and sl1: "sl1 = sl @ map snd es"
    by blast
  from es have "length es = length (data_cols info_cols df)" by (metis length_map)
  with Cons.IH [OF rest] sl1 item show ?case by simp
qed

lemma single_source:
  assumes "distinct xs" "set xs = {x}"
  shows "xs = [x]"
proof (cases xs)
  case Nil
  with assms show ?thesis by simp
next
  case (Cons y ys)
  with assms have "y = x" "set ys \<subseteq> {x}" "x \<notin> set ys" by auto
  then have "ys = []" by (cases ys) auto
  with Cons \<open>y = x\<close> show ?thesis by simp
qed

text \<open>
  C4. The \<^verbatim>\<open>sources\<close> list of the written document has no two entries that agree on all of
  \<^verbatim>\<open>project\<close>, \<^verbatim>\<open>web\<close> and \<^verbatim>\<open>type\<close>. The loop collects one source entry for each column that
  is not skipped, and the written list holds every collected entry exactly once; with the
  lookup tables of the module that is the one CoSSMic entry, however many columns there are.
\<close>

theorem sources_without_duplicates:
  assumes run: "make_json data_sets info_cols version changes headers fs (Inr out)"
  shows "\<exists>doc sources resource_list collected schemas_dict.
           data_sets_loop info_cols headers data_sets ([resource_xlsx], [], [])
             = Inr (resource_list, collected, schemas_dict) \<and>
           length collected
             = length (concat (map (\<lambda>item. data_cols info_cols (snd item)) data_sets)) \<and>
           datapackage (files out) = Some doc \<and>
           dict_get doc ''sources'' = Some (PyList sources) \<and>
           distinct sources \<and>
           set sources = set (map source_dict collected) \<and>
           sources
             = [PyDict [(''project'', PyStr ''CoSSMic''),
                        (''web'', PyStr ''http://cossmic.eu/''),
                        (''type'', PyStr (''Residential building, located in the suburban '' @
                                          ''area in a four-person household''))]]"
proof -
  from run obtain rl sl sd sources
    where loop: "data_sets_loop info_cols headers data_sets ([resource_xlsx], [], []) = Inr (rl, sl, sd)"
      and ne: "sl \<noteq> []"
      and it: "set_iteration sl sources"
      and out: "out = \<lparr>returned = PyNone,
            files = fs(''datapackage.json'' \<mapsto> Json_dumps (metadata version changes sources rl sd))\<rparr>"
    by (rule make_json_Inr)
  from data_sets_loop_source_count [OF loop]
  have len: "length sl
               = length (concat (map (\<lambda>item. data_cols info_cols (snd item)) data_sets))"
    by simp
  from data_sets_loop_Inr [OF loop] have "set sl \<subseteq> {cossmic_source}" by auto
  with ne have sl: "set sl = {cossmic_source}" by (cases sl) auto
  from it have d: "distinct sources" and s: "set sources = set sl"
    by (simp_all add: set_iteration_def)
  from d s sl have one: "sources = [cossmic_source]"
    by (intro single_source) simp_all
  from d inj_source_dict have dd: "distinct (map source_dict sources)"
    by (auto simp: distinct_map inj_on_def)
  from s have ss: "set (map source_dict sources) = set (map source_dict sl)" by simp
  have val: "map source_dict sources
               = [PyDict [(''project'', PyStr ''CoSSMic''),
                        (''web'', PyStr ''http://cossmic.eu/''),
                        (''type'', PyStr (''Residential building, located in the suburban '' @
                                          ''area in a four-person household''))]]"
    by (simp add: one cossmic_source_def source_template_def source_dict_def)
  have doc: "datapackage (files out) = Some (metadata version changes sources rl sd)"
    by (simp add: out)
  from loop len doc metadata_sources [of version changes sources rl sd] dd ss val
  have "data_sets_loop info_cols headers data_sets ([resource_xlsx], [], []) = Inr (rl, sl, sd) \<and>
        length sl = length (concat (map (\<lambda>item. data_cols info_cols (snd item)) data_sets)) \<and>
        datapackage (files out) = Some (metadata version changes sources rl sd) \<and>
        dict_get (metadata version changes sources rl sd) ''sources''
          = Some (PyList (map source_dict sources)) \<and>
        distinct (map source_dict sources) \<and>
        set (map source_dict sources) = set (map source_dict sl) \<and>
        map source_dict sources
          = [PyDict [(''project'', PyStr ''CoSSMic''),
                     (''web'', PyStr ''http://cossmic.eu/''),
                     (''type'', PyStr (''Residential building, located in the suburban '' @
                                       ''area in a four-person household''))]]"
    by (intro conjI)
  then show ?thesis by (intro exI)
qed

theorem sources_without_duplicates_witness:
  "make_json example_two_data_sets example_info_cols ''2020-04-15'' ''Initial release''
     example_headers Map.empty (Inr example_two_outcome) \<and>
   (\<exists>doc sources resource_list collected schemas_dict.
      data_sets_loop example_info_cols example_headers example_two_data_sets
        ([resource_xlsx], [], []) = Inr (resource_list, collected, schemas_dict) \<and>
      length collected = 4 \<and>
      datapackage (files example_two_outcome) = Some doc \<and>
      dict_get doc ''sources'' = Some (PyList sources) \<and>
      distinct sources \<and>
      length sources = 1)"
proof -
  have n: "length (concat (map (\<lambda>item. data_cols example_info_cols (snd item))
             example_two_data_sets)) = 4"
    by (simp add: example_two_data_sets_def example_wide_data_cols example_data_cols)
  from sources_without_duplicates [OF example_two_run]
  obtain doc sources resource_list collected schemas_dict where
    "data_sets_loop example_info_cols example_headers example_two_data_sets
        ([resource_xlsx], [], []) = Inr (resource_list, collected, schemas_dict)"
    "length collected = length (concat (map (\<lambda>item. data_cols example_info_cols (snd item))
             example_two_data_sets))"
    "datapackage (files example_two_outcome) = Some doc"
    "dict_get doc ''sources'' = Some (PyList sources)"
    "distinct sources" "length sources = 1"
    by fastforce
  with n have "\<exists>doc sources resource_list collected schemas_dict.
      data_sets_loop example_info_cols example_headers example_two_data_sets
        ([resource_xlsx], [], []) = Inr (resource_list, collected, schemas_dict) \<and>
      length collected = 4 \<and>
      datapackage (files example_two_outcome) = Some doc \<and>
      dict_get doc ''sources'' = Some (PyList sources) \<and>
      distinct sources \<and>
      length sources = 1"
    by auto
  with example_two_run show ?thesis by (intro conjI)
qed




lemma map_of_rev_last:
  assumes "i < length xs"
    and "\<forall>j. i < j \<and> j < length xs \<longrightarrow> fst (xs ! j) \<noteq> fst (xs ! i)"
  shows "map_of (rev xs) (fst (xs ! i)) = Some (snd (xs ! i))"
  using assms
proof (induction xs rule: rev_induct)
  case Nil
  then show ?case by simp
next
  case (snoc x xs)
  show ?case
  proof (cases "i = length xs")
    case True
    then show ?thesis by (cases x) simp
  next
    case False
    with snoc.prems(1) have i: "i < length xs" by simp
    from snoc.prems(2) [rule_format, of "length xs"] i
    have ne: "fst x \<noteq> fst (xs ! i)" by (simp add: nth_append)
    have "\<forall>j. i < j \<and> j < length xs \<longrightarrow> fst (xs ! j) \<noteq> fst (xs ! i)"
    proof (intro allI impI)
      fix j assume j: "i < j \<and> j < length xs"
      with snoc.prems(2) [rule_format, of j] i show "fst (xs ! j) \<noteq> fst (xs ! i)"
        by (simp add: nth_append)
    qed
    from snoc.IH [OF i this] ne i show ?thesis
      by (cases x) (auto simp: nth_append)
  qed
qed

lemma header_record_last:
  assumes "i < min (length headers) (length col)"
    and "\<forall>j. i < j \<and> j < min (length headers) (length col) \<longrightarrow> headers ! j \<noteq> headers ! i"
  shows "header_record headers col (headers ! i) = Some (col ! i)"
proof -
  let ?xs = "zip headers col"
  from assms(1) have i: "i < length ?xs" by simp
  have "\<forall>j. i < j \<and> j < length ?xs \<longrightarrow> fst (?xs ! j) \<noteq> fst (?xs ! i)"
    using assms by auto
  from map_of_rev_last [OF i this] assms(1) show ?thesis
    by (simp add: header_record_map_of)
qed

lemma header_record_dom_take:
  "dom (header_record headers col) = set (take (length col) headers)"
proof -
  have "dom (header_record headers col) = set (map fst (zip headers col))"
    by (simp add: header_record_map_of dom_map_of_conv_image_fst)
  also have "map fst (zip headers col) = take (min (length headers) (length col)) headers"
    by (rule map_fst_zip_take)
  also have "\<dots> = take (length col) headers"
    by (simp add: min_def)
  finally show ?thesis .
qed

lemma columns_loop_entries:
  assumes "columns_loop info_cols headers df (fl, sl) = Inr (fl', sl')"
  shows "length fl' = length fl + length (data_cols info_cols df) \<and>
         length sl' = length sl + length (data_cols info_cols df) \<and>
         (\<forall>i < length (data_cols info_cols df).
            col_entry headers (data_cols info_cols df ! i)
              = Inr (fl' ! (length fl + i), sl' ! (length sl + i)))"
proof -
  from columns_loop_Inr [OF assms] obtain es
    where es: "map (col_entry headers) (data_cols info_cols df) = map Inr es"
      and fl': "fl' = fl @ map fst es" and sl': "sl' = sl @ map snd es"
    by blast
  from es have len: "length es = length (data_cols info_cols df)"
    by (metis length_map)
  have "col_entry headers (data_cols info_cols df ! i)
          = Inr (fl' ! (length fl + i), sl' ! (length sl + i))"
    if i: "i < length (data_cols info_cols df)" for i
  proof -
    from map_Inr_nth(1) [OF es i]
    have "col_entry headers (data_cols info_cols df ! i) = Inr (fst (es ! i), snd (es ! i))"
      by simp
    moreover from i len have "fl' ! (length fl + i) = fst (es ! i)"
      "sl' ! (length sl + i) = snd (es ! i)"
      by (simp_all add: fl' sl')
    ultimately show ?thesis by simp
  qed
  with len fl' sl' show ?thesis by simp
qed

lemma col_entry_built:
  assumes "col_entry headers col = Inr (field, source)"
  shows "\<exists>household feed.
           header_record headers col ''household'' = Some household \<and>
           header_record headers col ''feed'' = Some feed \<and>
           header_record headers col ''project'' = Some ''CoSSMic'' \<and>
           map_of source ''project'' = Some ''CoSSMic'' \<and>
           dict_get field ''source'' = Some (source_dict source) \<and>
           (plain_scalar household \<and> plain_scalar feed \<longrightarrow>
              dict_get field ''name'' = Some (PyStr (household @ ''_'' @ feed)) \<and>
              dict_get field ''opsd-properties''
                = Some (PyDict [(''Region'', PyStr ''Germany, Konstanz''),
                                (''Household'', PyStr household),
                                (''Feed'', PyStr feed)]))"
proof -
  from col_entry_Inr [OF assms] obtain household feed
    where h: "header_record headers col ''household'' = Some household"
      "header_record headers col ''feed'' = Some feed"
      "header_record headers col ''project'' = Some ''CoSSMic''"
      and f: "field = field_template household feed
                     (case descriptions feed of None \<Rightarrow> ''Energy in kWh'' | Some x \<Rightarrow> x)
                     ''CoSSMic'' ''http://cossmic.eu/''
                     ''Residential building, located in the suburban area in a four-person household''
                     ''Germany, Konstanz''"
      and s: "source = source_template ''CoSSMic'' ''http://cossmic.eu/''
                     ''Residential building, located in the suburban area in a four-person household''"
    by blast
  have "map_of source ''project'' = Some ''CoSSMic''"
    "dict_get field ''source'' = Some (source_dict source)"
    "dict_get field ''name'' = Some (PyStr (household @ ''_'' @ feed))"
    "dict_get field ''opsd-properties''
                = Some (PyDict [(''Region'', PyStr ''Germany, Konstanz''),
                                (''Household'', PyStr household),
                                (''Feed'', PyStr feed)])"
    by (simp_all add: f s field_template_def source_template_def dict_get_def source_dict_def)
  with h show ?thesis by blast
qed

lemma example_wide_loop:
  "columns_loop example_info_cols example_headers example_wide_frame ([], [])
     = Inr ([example_pv_field, example_load_field, example_oven_field],
            [cossmic_source, cossmic_source, cossmic_source])"
  by (simp add: example_info_cols_def example_headers_def
      example_pv_col_def example_load_col_def example_oven_col_def
      example_wide_frame_def col_step_def is_info_col_def
      dict_values_def col_entry_def header_record_def
      resolve_def getitem_def websites_def web_template_def regions_def region_template_def
      types_def type_template_def descriptions_def descriptions_template_def
      field_template_format_def source_template_format_def
      cossmic_source_def example_pv_field_def example_load_field_def example_oven_field_def)

text \<open>
  C5, as the code has it. A column whose first header level is one of the values of
  \<open>info_cols\<close> is skipped: it adds no field entry and no source entry, so the loop over a table
  does what it does over the remaining columns alone, and on success each remaining column
  has added exactly its own field entry and source entry, in order. Every other column
  gets the record of \<^verbatim>\<open>zip(headers, col)\<close>: it has an entry for each level name that the column
  has a value for, and it maps a name to the value at the last level of that name. So the
  record pairs each header level name with the column's value at that level when the level
  names are pairwise different and the column has a value for each of them. The field entry
  and the source entry of the column are built from this record.
\<close>

theorem info_columns_skipped_others_recorded:
  "([] \<notin> set df \<longrightarrow>
      columns_loop info_cols headers df (fl, sl)
        = columns_loop info_cols headers (data_cols info_cols df) (fl, sl) \<and>
      (\<forall>fl' sl'. columns_loop info_cols headers df (fl, sl) = Inr (fl', sl') \<longrightarrow>
         length fl' = length fl + length (data_cols info_cols df) \<and>
         length sl' = length sl + length (data_cols info_cols df) \<and>
         (\<forall>i < length (data_cols info_cols df).
            col_entry headers (data_cols info_cols df ! i)
              = Inr (fl' ! (length fl + i), sl' ! (length sl + i))))) \<and>
   (\<forall>i < min (length headers) (length col).
      (\<forall>j. i < j \<and> j < min (length headers) (length col) \<longrightarrow> headers ! j \<noteq> headers ! i) \<longrightarrow>
      header_record headers col (headers ! i) = Some (col ! i)) \<and>
   dom (header_record headers col) = set (take (length col) headers) \<and>
   (distinct headers \<and> length headers \<le> length col \<longrightarrow>
      dom (header_record headers col) = set headers \<and>
      (\<forall>i < length headers. header_record headers col (headers ! i) = Some (col ! i))) \<and>
   (\<forall>field source. col_entry headers col = Inr (field, source) \<longrightarrow>
      (\<exists>household feed.
         header_record headers col ''household'' = Some household \<and>
         header_record headers col ''feed'' = Some feed \<and>
         header_record headers col ''project'' = Some ''CoSSMic'' \<and>
         map_of source ''project'' = Some ''CoSSMic'' \<and>
         dict_get field ''source'' = Some (source_dict source) \<and>
         (plain_scalar household \<and> plain_scalar feed \<longrightarrow>
            dict_get field ''name'' = Some (PyStr (household @ ''_'' @ feed)) \<and>
            dict_get field ''opsd-properties''
              = Some (PyDict [(''Region'', PyStr ''Germany, Konstanz''),
                              (''Household'', PyStr household),
                              (''Feed'', PyStr feed)]))))"
proof (intro conjI impI allI)
  assume "[] \<notin> set df"
  then show "columns_loop info_cols headers df (fl, sl)
        = columns_loop info_cols headers (data_cols info_cols df) (fl, sl)"
    by (rule columns_loop_skip)
next
  fix fl' sl'
  assume "columns_loop info_cols headers df (fl, sl) = Inr (fl', sl')"
  note E = columns_loop_entries [OF this]
  from E show "length fl' = length fl + length (data_cols info_cols df)" by simp
  from E show "length sl' = length sl + length (data_cols info_cols df)" by simp
  fix i assume "i < length (data_cols info_cols df)"
  with E show "col_entry headers (data_cols info_cols df ! i)
              = Inr (fl' ! (length fl + i), sl' ! (length sl + i))"
    by simp
next
  fix i
  assume "i < min (length headers) (length col)"
    "\<forall>j. i < j \<and> j < min (length headers) (length col) \<longrightarrow> headers ! j \<noteq> headers ! i"
  then show "header_record headers col (headers ! i) = Some (col ! i)"
    by (rule header_record_last)
next
  show "dom (header_record headers col) = set (take (length col) headers)"
    by (rule header_record_dom_take)
next
  assume "distinct headers \<and> length headers \<le> length col"
  then show "dom (header_record headers col) = set headers"
    by (simp add: header_record_dom)
next
  fix i
  assume "distinct headers \<and> length headers \<le> length col" "i < length headers"
  then show "header_record headers col (headers ! i) = Some (col ! i)"
    by (simp add: header_record_nth)
next
  fix field source
  assume "col_entry headers col = Inr (field, source)"
  then show "\<exists>household feed.
         header_record headers col ''household'' = Some household \<and>
         header_record headers col ''feed'' = Some feed \<and>
         header_record headers col ''project'' = Some ''CoSSMic'' \<and>
         map_of source ''project'' = Some ''CoSSMic'' \<and>
         dict_get field ''source'' = Some (source_dict source) \<and>
         (plain_scalar household \<and> plain_scalar feed \<longrightarrow>
            dict_get field ''name'' = Some (PyStr (household @ ''_'' @ feed)) \<and>
            dict_get field ''opsd-properties''
              = Some (PyDict [(''Region'', PyStr ''Germany, Konstanz''),
                              (''Household'', PyStr household),
                              (''Feed'', PyStr feed)]))"
    by (rule col_entry_built)
qed

theorem info_columns_skipped_others_recorded_witness:
  "[] \<notin> set example_wide_frame \<and>
   data_cols example_info_cols example_wide_frame
     = [example_pv_col, example_load_col, example_oven_col] \<and>
   columns_loop example_info_cols example_headers example_wide_frame ([], [])
     = columns_loop example_info_cols example_headers
         [example_pv_col, example_load_col, example_oven_col] ([], []) \<and>
   columns_loop example_info_cols example_headers example_wide_frame ([], [])
     = Inr ([example_pv_field, example_load_field, example_oven_field],
            [cossmic_source, cossmic_source, cossmic_source]) \<and>
   col_entry example_headers example_load_col = Inr (example_load_field, cossmic_source) \<and>
   header_record [''feed'', ''feed''] [''pv'', ''ev''] ([''feed'', ''feed''] ! 1)
     = Some ([''pv'', ''ev''] ! 1) \<and>
   dom (header_record [''household'', ''feed''] [''DE_KN_residential1''])
     = set (take 1 [''household'', ''feed'']) \<and>
   distinct example_headers \<and> length example_headers \<le> length example_pv_col \<and>
   dom (header_record example_headers example_pv_col) = set example_headers \<and>
   header_record example_headers example_pv_col (example_headers ! 1) = Some (example_pv_col ! 1) \<and>
   col_entry example_headers example_pv_col = Inr (example_pv_field, cossmic_source) \<and>
   plain_scalar ''DE_KN_residential1'' \<and> plain_scalar ''pv'' \<and>
   dict_get example_pv_field ''name'' = Some (PyStr ''DE_KN_residential1_pv'') \<and>
   dict_get example_pv_field ''source'' = Some (source_dict cossmic_source)"
proof -
  note T = info_columns_skipped_others_recorded
    [where info_cols = example_info_cols and headers = example_headers
      and df = example_wide_frame and fl = "[]" and sl = "[]" and col = example_pv_col]
  note U = info_columns_skipped_others_recorded
    [where info_cols = example_info_cols and headers = "[''feed'', ''feed'']"
      and df = "[]" and fl = "[]" and sl = "[]" and col = "[''pv'', ''ev'']"]
  note V = info_columns_skipped_others_recorded
    [where info_cols = example_info_cols and headers = "[''household'', ''feed'']"
      and df = "[]" and fl = "[]" and sl = "[]" and col = "[''DE_KN_residential1'']"]
  have ne: "[] \<notin> set example_wide_frame"
    by (simp add: example_wide_frame_def example_pv_col_def example_load_col_def
        example_oven_col_def)
  have c: "distinct example_headers \<and> length example_headers \<le> length example_pv_col"
    by (simp add: example_pv_col_def example_headers_def)
  note T1 = T [THEN conjunct1, THEN mp, OF ne]
  from T1 [THEN conjunct1]
  have 1: "columns_loop example_info_cols example_headers example_wide_frame ([], [])
     = columns_loop example_info_cols example_headers
         [example_pv_col, example_load_col, example_oven_col] ([], [])"
    by (simp only: example_wide_data_cols)
  note T1b = T1 [THEN conjunct2, THEN spec, THEN spec, THEN mp, OF example_wide_loop]
  from T1b [THEN conjunct2, THEN conjunct2, THEN spec, of 1]
  have 2: "col_entry example_headers example_load_col = Inr (example_load_field, cossmic_source)"
    by (simp add: example_wide_data_cols)
  from T1b [THEN conjunct2, THEN conjunct2, THEN spec, of 0]
  have 3: "col_entry example_headers example_pv_col = Inr (example_pv_field, cossmic_source)"
    by (simp add: example_wide_data_cols)
  from U [THEN conjunct2, THEN conjunct1, THEN spec, of 1]
  have 4: "header_record [''feed'', ''feed''] [''pv'', ''ev''] ([''feed'', ''feed''] ! 1)
     = Some ([''pv'', ''ev''] ! 1)"
    by simp
  from V [THEN conjunct2, THEN conjunct2, THEN conjunct1]
  have 5: "dom (header_record [''household'', ''feed''] [''DE_KN_residential1''])
     = set (take 1 [''household'', ''feed''])"
    by simp
  note T4 = T [THEN conjunct2, THEN conjunct2, THEN conjunct2, THEN conjunct1, THEN mp, OF c]
  from T4 [THEN conjunct1]
  have 6: "dom (header_record example_headers example_pv_col) = set example_headers" .
  from T4 [THEN conjunct2, THEN spec, of 1]
  have 7: "header_record example_headers example_pv_col (example_headers ! 1)
             = Some (example_pv_col ! 1)"
    by (simp add: example_headers_def)
  have p: "plain_scalar ''DE_KN_residential1''" "plain_scalar ''pv''"
    by (simp_all add: plain_examples)
  note T5 = T [THEN conjunct2, THEN conjunct2, THEN conjunct2, THEN conjunct2,
      THEN spec, THEN spec, THEN mp, OF 3]
  from T5 example_pv_record(1,2) p
  have 8: "dict_get example_pv_field ''name'' = Some (PyStr ''DE_KN_residential1_pv'')"
    "dict_get example_pv_field ''source'' = Some (source_dict cossmic_source)"
    by auto
  from ne example_wide_data_cols 1 example_wide_loop 2 4 5 c [THEN conjunct1] c [THEN conjunct2]
    6 7 3 p 8
  show ?thesis by (intro conjI)
qed

text \<open>
  The claim C5 as stated fails for a repeated level name and for a column with fewer
  values than there are names: with the levels \<^verbatim>\<open>feed, feed\<close> and the column \<^verbatim>\<open>(pv, ev)\<close> the record
  does not pair the first level with \<^verbatim>\<open>pv\<close>, and with the levels \<^verbatim>\<open>household, feed\<close> and a column of
  one value the record has no entry for \<^verbatim>\<open>feed\<close>. Neither column is skipped.
\<close>

theorem record_pairing_counterexample:
  "\<not> is_info_col example_info_cols [''pv'', ''ev''] \<and>
   header_record [''feed'', ''feed''] [''pv'', ''ev''] ([''feed'', ''feed''] ! 0)
     \<noteq> Some ([''pv'', ''ev''] ! 0) \<and>
   header_record [''feed'', ''feed''] [''pv'', ''ev''] ''feed'' = Some ''ev'' \<and>
   \<not> is_info_col example_info_cols [''DE_KN_residential1''] \<and>
   header_record [''household'', ''feed''] [''DE_KN_residential1''] ([''household'', ''feed''] ! 1)
     = None"
  by (simp add: is_info_col_def example_info_cols_def dict_values_def header_record_def)

lemma schemas_template_format_Inl:
  assumes "\<not> (''res_key'' \<notin> fst ` set info_cols \<and> map_of info_cols ''utc'' \<noteq> None \<and>
              map_of info_cols ''cet'' \<noteq> None \<and> map_of info_cols ''marker'' \<noteq> None)"
  shows "\<exists>e. schemas_template_format res_key info_cols field_list = Inl e"
proof (cases "schemas_template_format res_key info_cols field_list")
  case (Inl e)
  then show ?thesis by simp
next
  case (Inr entry)
  from schemas_template_format_Inr [OF this] assms show ?thesis by auto
qed

lemma data_sets_loop_first_schema:
  assumes "\<forall>col \<in> set df. col \<noteq> [] \<and> is_info_col info_cols col"
    and "schemas_template_format res_key info_cols [] = Inl e"
  shows "data_sets_loop info_cols headers ((res_key, df) # items) acc = Inl e"
proof -
  obtain rl sl sd where acc: "acc = (rl, sl, sd)" by (cases acc)
  from assms(1) have "columns_loop info_cols headers df ([], sl) = Inr ([], sl)"
    by (rule columns_loop_all_info)
  with assms(2) show ?thesis
    by (simp add: acc res_step_def)
qed

text \<open>
  C10. When the collection yields no data column (it is empty, or each column of each
  table has a first header level among the values of \<open>info_cols\<close>), the loop runs through and
  leaves the source text empty, and the run has exactly one outcome: the \<^verbatim>\<open>TypeError\<close> raised
  while removing duplicate sources, from iterating over the \<^verbatim>\<open>None\<close> that the empty text loads
  to. No document is written. This is so for the empty collection, and for every collection
  when \<open>info_cols\<close> provides the names \<^verbatim>\<open>utc\<close>, \<^verbatim>\<open>cet\<close> and \<^verbatim>\<open>marker\<close> of the schema template and no
  \<^verbatim>\<open>res_key\<close>. With other \<open>info_cols\<close>, on which no run over a table can succeed, the only
  outcome is the error of formatting the schema of the first key, raised inside the loop.
\<close>

theorem no_data_columns_raise:
  assumes nodata:
    "\<forall>item \<in> set data_sets. \<forall>col \<in> set (snd item). col \<noteq> [] \<and> is_info_col info_cols col"
  shows "(data_sets = [] \<or>
          (''res_key'' \<notin> fst ` set info_cols \<and> map_of info_cols ''utc'' \<noteq> None \<and>
           map_of info_cols ''cet'' \<noteq> None \<and> map_of info_cols ''marker'' \<noteq> None) \<longrightarrow>
            (\<exists>resource_list schemas_dict.
               data_sets_loop info_cols headers data_sets ([resource_xlsx], [], [])
                 = Inr (resource_list, [], schemas_dict)) \<and>
            (\<forall>out. make_json data_sets info_cols version changes headers fs out
                    \<longleftrightarrow> out = Inl (TypeError ''NoneType object is not iterable''))) \<and>
         (data_sets \<noteq> [] \<and>
          \<not> (''res_key'' \<notin> fst ` set info_cols \<and> map_of info_cols ''utc'' \<noteq> None \<and>
             map_of info_cols ''cet'' \<noteq> None \<and> map_of info_cols ''marker'' \<noteq> None) \<longrightarrow>
            (\<exists>e. schemas_template_format (fst (hd data_sets)) info_cols [] = Inl e \<and>
               data_sets_loop info_cols headers data_sets ([resource_xlsx], [], []) = Inl e \<and>
               (\<forall>out. make_json data_sets info_cols version changes headers fs out
                       \<longleftrightarrow> out = Inl e)))"
proof (intro conjI impI)
  assume ok: "data_sets = [] \<or>
          (''res_key'' \<notin> fst ` set info_cols \<and> map_of info_cols ''utc'' \<noteq> None \<and>
           map_of info_cols ''cet'' \<noteq> None \<and> map_of info_cols ''marker'' \<noteq> None)"
  have "\<exists>rl sd. data_sets_loop info_cols headers data_sets ([resource_xlsx], [], [])
                  = Inr (rl, [], sd)"
    using ok
  proof
    assume "data_sets = []"
    then show ?thesis by simp
  next
    assume "''res_key'' \<notin> fst ` set info_cols \<and> map_of info_cols ''utc'' \<noteq> None \<and>
           map_of info_cols ''cet'' \<noteq> None \<and> map_of info_cols ''marker'' \<noteq> None"
    with data_sets_loop_all_info [OF nodata, of headers "[resource_xlsx]" "[]" "[]"]
    show ?thesis by blast
  qed
  then obtain rl sd
    where loop: "data_sets_loop info_cols headers data_sets ([resource_xlsx], [], [])
                   = Inr (rl, [], sd)"
    by blast
  then show "\<exists>resource_list schemas_dict.
               data_sets_loop info_cols headers data_sets ([resource_xlsx], [], [])
                 = Inr (resource_list, [], schemas_dict)"
    by blast
  from make_json_of_no_sources [OF loop]
  show "\<forall>out. make_json data_sets info_cols version changes headers fs out
                    \<longleftrightarrow> out = Inl (TypeError ''NoneType object is not iterable'')"
    by blast
next
  assume bad: "data_sets \<noteq> [] \<and>
          \<not> (''res_key'' \<notin> fst ` set info_cols \<and> map_of info_cols ''utc'' \<noteq> None \<and>
             map_of info_cols ''cet'' \<noteq> None \<and> map_of info_cols ''marker'' \<noteq> None)"
  then obtain res_key df items where ds: "data_sets = (res_key, df) # items"
    by (cases data_sets) auto
  from bad schemas_template_format_Inl [of info_cols res_key "[]"]
  obtain e where e: "schemas_template_format res_key info_cols [] = Inl e"
    by blast
  from nodata ds have "\<forall>col \<in> set df. col \<noteq> [] \<and> is_info_col info_cols col"
    by simp
  from data_sets_loop_first_schema [OF this e]
  have loop: "data_sets_loop info_cols headers data_sets ([resource_xlsx], [], []) = Inl e"
    by (simp add: ds)
  from make_json_of_error [OF loop]
  have "\<forall>out. make_json data_sets info_cols version changes headers fs out \<longleftrightarrow> out = Inl e"
    by blast
  with e loop ds
  show "\<exists>e. schemas_template_format (fst (hd data_sets)) info_cols [] = Inl e \<and>
               data_sets_loop info_cols headers data_sets ([resource_xlsx], [], []) = Inl e \<and>
               (\<forall>out. make_json data_sets info_cols version changes headers fs out
                       \<longleftrightarrow> out = Inl e)"
    by auto
qed

theorem no_data_columns_raise_witness:
  "example_info_data_sets = [(''15min'', [[''utc_timestamp'', [], [], [], []]])] \<and>
   is_info_col example_info_cols [''utc_timestamp'', [], [], [], []] \<and>
   ''res_key'' \<notin> fst ` set example_info_cols \<and> map_of example_info_cols ''utc'' \<noteq> None \<and>
   map_of example_info_cols ''cet'' \<noteq> None \<and> map_of example_info_cols ''marker'' \<noteq> None \<and>
   (\<exists>resource_list schemas_dict.
      data_sets_loop example_info_cols example_headers example_info_data_sets
        ([resource_xlsx], [], []) = Inr (resource_list, [], schemas_dict)) \<and>
   make_json example_info_data_sets example_info_cols ''2020-04-15'' ''Initial release''
     example_headers Map.empty (Inl (TypeError ''NoneType object is not iterable'')) \<and>
   (\<forall>out. make_json example_info_data_sets example_info_cols ''2020-04-15'' ''Initial release''
            example_headers Map.empty out
          \<longleftrightarrow> out = Inl (TypeError ''NoneType object is not iterable'')) \<and>
   (\<forall>out. make_json [] [] ''2020-04-15'' ''Initial release'' example_headers Map.empty out
          \<longleftrightarrow> out = Inl (TypeError ''NoneType object is not iterable'')) \<and>
   is_info_col [(''utc'', ''utc_timestamp'')] [''utc_timestamp'', [], [], [], []] \<and>
   map_of [(''utc'', ''utc_timestamp'')] ''cet'' = None \<and>
   data_sets_loop [(''utc'', ''utc_timestamp'')] example_headers example_info_data_sets
     ([resource_xlsx], [], []) = Inl (KeyError ''cet'') \<and>
   (\<forall>out. make_json example_info_data_sets [(''utc'', ''utc_timestamp'')] ''2020-04-15''
            ''Initial release'' example_headers Map.empty out
          \<longleftrightarrow> out = Inl (KeyError ''cet''))"
proof -
  have ds: "example_info_data_sets = [(''15min'', [[''utc_timestamp'', [], [], [], []]])]"
    by (simp add: example_info_data_sets_def)
  have i1: "is_info_col example_info_cols [''utc_timestamp'', [], [], [], []]"
    and i2: "is_info_col [(''utc'', ''utc_timestamp'')] [''utc_timestamp'', [], [], [], []]"
    by (simp_all add: is_info_col_def example_info_cols_def dict_values_def)
  have hyp1: "\<forall>item \<in> set example_info_data_sets. \<forall>col \<in> set (snd item).
      col \<noteq> [] \<and> is_info_col example_info_cols col"
    using i1 by (simp add: ds)
  have hyp2: "\<forall>item \<in> set example_info_data_sets. \<forall>col \<in> set (snd item).
      col \<noteq> [] \<and> is_info_col [(''utc'', ''utc_timestamp'')] col"
    using i2 by (simp add: ds)
  have hyp0: "\<forall>item \<in> set ([] :: (string \<times> data_frame) list). \<forall>col \<in> set (snd item).
          col \<noteq> [] \<and> is_info_col [] col"
    by simp
  have ok: "''res_key'' \<notin> fst ` set example_info_cols" "map_of example_info_cols ''utc'' \<noteq> None"
    "map_of example_info_cols ''cet'' \<noteq> None" "map_of example_info_cols ''marker'' \<noteq> None"
    by (simp_all add: example_info_cols_def)
  have bad: "map_of [(''utc'', ''utc_timestamp'')] ''cet'' = None" by simp
  note A = no_data_columns_raise [OF hyp1, where version = "''2020-04-15''"
      and changes = "''Initial release''" and headers = example_headers and fs = Map.empty,
      THEN conjunct1, THEN mp]
  from ok have "example_info_data_sets = [] \<or>
          (''res_key'' \<notin> fst ` set example_info_cols \<and> map_of example_info_cols ''utc'' \<noteq> None \<and>
           map_of example_info_cols ''cet'' \<noteq> None \<and> map_of example_info_cols ''marker'' \<noteq> None)"
    by (intro disjI2 conjI)
  note A' = A [OF this]
  note B = no_data_columns_raise [OF hyp0, where version = "''2020-04-15''"
      and changes = "''Initial release''" and headers = example_headers and fs = Map.empty,
      THEN conjunct1, THEN mp, OF disjI1, OF refl, THEN conjunct2]
  note C = no_data_columns_raise [OF hyp2, where version = "''2020-04-15''"
      and changes = "''Initial release''" and headers = example_headers and fs = Map.empty,
      THEN conjunct2, THEN mp]
  have "example_info_data_sets \<noteq> [] \<and>
          \<not> (''res_key'' \<notin> fst ` set [(''utc'', ''utc_timestamp'')] \<and>
             map_of [(''utc'', ''utc_timestamp'')] ''utc'' \<noteq> None \<and>
             map_of [(''utc'', ''utc_timestamp'')] ''cet'' \<noteq> None \<and>
             map_of [(''utc'', ''utc_timestamp'')] ''marker'' \<noteq> None)"
    by (simp add: ds)
  from C [OF this] obtain e
    where e: "schemas_template_format (fst (hd example_info_data_sets))
                [(''utc'', ''utc_timestamp'')] [] = Inl e"
      and le: "data_sets_loop [(''utc'', ''utc_timestamp'')] example_headers
                 example_info_data_sets ([resource_xlsx], [], []) = Inl e"
      and me: "\<forall>out. make_json example_info_data_sets [(''utc'', ''utc_timestamp'')]
                 ''2020-04-15'' ''Initial release'' example_headers Map.empty out
               \<longleftrightarrow> out = Inl e"
    by blast
  from e have "e = KeyError ''cet''"
    by (simp add: ds schemas_template_format_def getitem_def)
  with le me have c: "data_sets_loop [(''utc'', ''utc_timestamp'')] example_headers
       example_info_data_sets ([resource_xlsx], [], []) = Inl (KeyError ''cet'')"
    "\<forall>out. make_json example_info_data_sets [(''utc'', ''utc_timestamp'')] ''2020-04-15''
            ''Initial release'' example_headers Map.empty out
          \<longleftrightarrow> out = Inl (KeyError ''cet'')"
    by simp_all
  from ds i1 ok A' [THEN conjunct1] example_info_run A' [THEN conjunct2] B i2 bad c
  show ?thesis by (intro conjI)
qed

end
